theory Spec2Isabelle
  imports Complex_Main
begin

section \<open>Python values and exceptions\<close>

text \<open>
  The exceptions \<^verbatim>\<open>audit.py\<close> can raise on the paths modelled here. All of them are
  subclasses of Python's \<^verbatim>\<open>Exception\<close>, so the handler of \<^verbatim>\<open>_perform_request\<close>
  (\<^verbatim>\<open>except Exception\<close>) catches each one.
  \<^item> \<open>AttributeError\<close>: \<^verbatim>\<open>.get\<close> or \<^verbatim>\<open>.strip\<close> on a value that has no such method;
  \<^item> \<open>TypeError\<close>: \<^verbatim>\<open>re.search\<close> on a non-string, \<^verbatim>\<open>"".join\<close> on a non-string,
    \<^verbatim>\<open>len(None)\<close>;
  \<^item> \<open>KeyError\<close>: a missing dictionary key or response header;
  \<^item> \<open>IndexError\<close>: \<^verbatim>\<open>synthetics[-1]\<close> on the empty list, a list index out of range;
  \<^item> \<open>AssertionError\<close>: a failed \<^verbatim>\<open>assert\<close>;
  \<^item> \<open>JSONDecodeError\<close>: \<^verbatim>\<open>json.loads\<close> on bytes that are not JSON;
  \<^item> \<open>ValidationError\<close>: pydantic's, raised by \<^verbatim>\<open>Target(...)\<close>;
  \<^item> \<open>ClientError\<close>: a transport failure of aiohttp (connecting, or reading the body);
  \<^item> \<open>DatabaseError\<close>: a failure of the SQLAlchemy session (flush or commit).
\<close>

datatype py_error =
    AttributeError | TypeError | KeyError | IndexError | AssertionError
  | JSONDecodeError | ValidationError | ClientError | DatabaseError

text \<open>
  What \<^verbatim>\<open>json.loads\<close> returns: a JSON value. An object is an association list read with
  \<open>map_of\<close> (a key's first binding is the dictionary's binding).
\<close>

datatype json =
    JNull | JBool bool | JInt int | JFloat rat | JStr string
  | JArr "json list" | JObj "(string \<times> json) list"

text \<open>Python's truth value of a decoded JSON value (\<^verbatim>\<open>if not x\<close>).\<close>

fun truthy :: "json \<Rightarrow> bool" where
  "truthy JNull = False"
| "truthy (JBool b) = b"
| "truthy (JInt i) = (i \<noteq> 0)"
| "truthy (JFloat r) = (r \<noteq> 0)"
| "truthy (JStr s) = (s \<noteq> [])"
| "truthy (JArr xs) = (xs \<noteq> [])"
| "truthy (JObj kvs) = (kvs \<noteq> [])"

text \<open>
  \<^verbatim>\<open>x.get(k)\<close>: on a dictionary the value or \<^verbatim>\<open>None\<close>; every other JSON value has no
  method \<^verbatim>\<open>get\<close>.
\<close>

fun dict_get :: "json \<Rightarrow> string \<Rightarrow> py_error + json" where
  "dict_get (JObj kvs) k = Inr (case map_of kvs k of None \<Rightarrow> JNull | Some v \<Rightarrow> v)"
| "dict_get _ k = Inl AttributeError"

text \<open>\<^verbatim>\<open>x[k]\<close> on a dictionary: the value, or \<open>KeyError\<close>.\<close>

fun dict_item :: "json \<Rightarrow> string \<Rightarrow> py_error + json" where
  "dict_item (JObj kvs) k = (case map_of kvs k of None \<Rightarrow> Inl KeyError | Some v \<Rightarrow> Inr v)"
| "dict_item _ k = Inl TypeError"

section \<open>The two trace patterns\<close>

text \<open>
  Both patterns of \<^verbatim>\<open>audit.py\<close> are a sequence of literal texts and greedy repetitions of
  one character class, some of them capturing:
  \<^verbatim>\<open>query target=([^ ]+) uid=([0-9+]+) hotkey=([^ ]+)\<close> and
  \<^verbatim>\<open>error encountered while querying target=([^ ]+) uid=([0-9]+) hotkey=([^ ]+) coldkey=[^ ]+: (.*)\<close>.
  \<open>Rep c lo cap\<close> is the class \<open>c\<close> repeated at least \<open>lo\<close> times (\<open>+\<close> is 1, \<open>*\<close> is 0),
  captured as a group when \<open>cap\<close> holds.
\<close>

datatype cls = NotSpace | Digit | DigitOrPlus | NotNewline

fun in_cls :: "cls \<Rightarrow> char \<Rightarrow> bool" where
  "in_cls NotSpace c = (c \<noteq> CHR '' '')"
| "in_cls Digit c = (c \<in> set ''0123456789'')"
| "in_cls DigitOrPlus c = (c \<in> set ''0123456789+'')"
| "in_cls NotNewline c = (c \<noteq> CHR 0x0A)"

datatype tok = Lit string | Rep cls nat bool

fun first_some :: "('a \<Rightarrow> 'b option) \<Rightarrow> 'a list \<Rightarrow> 'b option" where
  "first_some f [] = None"
| "first_some f (x # xs) = (case f x of Some y \<Rightarrow> Some y | None \<Rightarrow> first_some f xs)"

text \<open>
  Matching at the start of \<open>s\<close>, as Python's backtracking matcher does: a repetition first
  takes as many characters as the class allows and gives them back one at a time until the
  rest of the pattern matches. The result is the list of captured groups.
\<close>

fun match_here :: "tok list \<Rightarrow> string \<Rightarrow> string list option" where
  "match_here [] s = Some []"
| "match_here (Lit l # ts) s =
     (if take (length l) s = l then match_here ts (drop (length l) s) else None)"
| "match_here (Rep c lo cap # ts) s =
     first_some
       (\<lambda>k. case match_here ts (drop k s) of
              None \<Rightarrow> None
            | Some gs \<Rightarrow> Some (if cap then take k s # gs else gs))
       (rev [lo ..< Suc (length (takeWhile (in_cls c) s))])"

text \<open>\<^verbatim>\<open>re.search\<close>: the match at the leftmost position that has one.\<close>

fun re_search :: "tok list \<Rightarrow> string \<Rightarrow> string list option" where
  "re_search ts [] = match_here ts []"
| "re_search ts (c # s) =
     (case match_here ts (c # s) of Some gs \<Rightarrow> Some gs | None \<Rightarrow> re_search ts s)"

definition routing_re :: "tok list" where
  "routing_re =
     [Lit ''query target='', Rep NotSpace 1 True,
      Lit '' uid='', Rep DigitOrPlus 1 True,
      Lit '' hotkey='', Rep NotSpace 1 True]"

definition error_re :: "tok list" where
  "error_re =
     [Lit ''error encountered while querying target='', Rep NotSpace 1 True,
      Lit '' uid='', Rep Digit 1 True,
      Lit '' hotkey='', Rep NotSpace 1 True,
      Lit '' coldkey='', Rep NotSpace 1 False,
      Lit '': '', Rep NotNewline 0 True]"

text \<open>
  \<^verbatim>\<open>re.search(pattern, message)\<close> on whatever \<^verbatim>\<open>chunk["trace"].get("message")\<close> gave: a
  message that is not a string (also a missing one, \<^verbatim>\<open>None\<close>) raises \<open>TypeError\<close>.
\<close>

fun search_message :: "tok list \<Rightarrow> json \<Rightarrow> py_error + string list option" where
  "search_message ts (JStr message) = Inr (re_search ts message)"
| "search_message ts _ = Inl TypeError"

section \<open>Targets and the trace extractor\<close>

text \<open>
  The pydantic model \<^verbatim>\<open>Target\<close>. Its fields \<^verbatim>\<open>instance_id\<close> and \<^verbatim>\<open>invocation_id\<close> carry the
  prefix \<open>target_\<close> here, since \<^verbatim>\<open>Synthetic\<close> has fields of the same names.
\<close>

record Target =
  target_instance_id :: string
  target_invocation_id :: string
  uid :: string
  hotkey :: string
  error :: "string option"

text \<open>
  \<^verbatim>\<open>Target(invocation_id=..., instance_id=..., uid=..., hotkey=..., error=...)\<close>. The three
  matched groups are strings; \<^verbatim>\<open>invocation_id\<close> is what the trace object holds under that key
  and is validated as \<^verbatim>\<open>str\<close>: a missing one (\<^verbatim>\<open>None\<close>) is refused with a
  \<open>ValidationError\<close>. Values of other JSON types are refused as well, which is pydantic's
  behaviour from version 2 on; no statement below depends on it.
\<close>

fun new_Target :: "json \<Rightarrow> string \<Rightarrow> string \<Rightarrow> string \<Rightarrow> string option \<Rightarrow> py_error + Target" where
  "new_Target (JStr ivid) inst u h e =
     Inr \<lparr>target_instance_id = inst, target_invocation_id = ivid, uid = u, hotkey = h, error = e\<rparr>"
| "new_Target _ inst u h e = Inl ValidationError"

text \<open>\<^verbatim>\<open>Auditor._extract_target\<close> (lines 289 to 305); \<open>Inr None\<close> is its \<^verbatim>\<open>return None\<close>.\<close>

definition extract_target :: "json \<Rightarrow> py_error + Target option" where
  "extract_target chunk =
     (case dict_get chunk ''trace'' of
        Inl e \<Rightarrow> Inl e
      | Inr trace \<Rightarrow>
          if \<not> truthy trace then Inr None
          else
            (case dict_get trace ''message'' of
               Inl e \<Rightarrow> Inl e
             | Inr message \<Rightarrow>
                 (case search_message routing_re message of
                    Inl e \<Rightarrow> Inl e
                  | Inr None \<Rightarrow> Inr None
                  | Inr (Some gs) \<Rightarrow>
                      (case dict_get trace ''invocation_id'' of
                         Inl e \<Rightarrow> Inl e
                       | Inr ivid \<Rightarrow>
                           (case new_Target ivid (gs ! 0) (gs ! 1) (gs ! 2) None of
                              Inl e \<Rightarrow> Inl e
                            | Inr target \<Rightarrow> Inr (Some target))))))"

text \<open>\<^verbatim>\<open>Auditor._extract_target_error\<close> (lines 307 to 323).\<close>

definition extract_target_error :: "json \<Rightarrow> py_error + Target option" where
  "extract_target_error chunk =
     (case dict_get chunk ''trace'' of
        Inl e \<Rightarrow> Inl e
      | Inr trace \<Rightarrow>
          if \<not> truthy trace then Inr None
          else
            (case dict_get trace ''message'' of
               Inl e \<Rightarrow> Inl e
             | Inr message \<Rightarrow>
                 (case search_message error_re message of
                    Inl e \<Rightarrow> Inl e
                  | Inr None \<Rightarrow> Inr None
                  | Inr (Some gs) \<Rightarrow>
                      (case dict_get trace ''invocation_id'' of
                         Inl e \<Rightarrow> Inl e
                       | Inr ivid \<Rightarrow>
                           (case new_Target ivid (gs ! 0) (gs ! 1) (gs ! 2) (Some (gs ! 3)) of
                              Inl e \<Rightarrow> Inl e
                            | Inr target \<Rightarrow> Inr (Some target))))))"

text \<open>
  \<^verbatim>\<open>Auditor._debug_target\<close> (lines 268 to 287) only logs, but building the log line reads
  \<^verbatim>\<open>chunk["trace"]["timestamp"]\<close> and \<^verbatim>\<open>chunk["trace"]["message"]\<close> and joins the timestamp
  with \<^verbatim>\<open>"".join\<close>: a trace without timestamp raises \<open>KeyError\<close>, a timestamp that is not
  a string raises \<open>TypeError\<close>.
\<close>

definition debug_target :: "json \<Rightarrow> py_error + unit" where
  "debug_target chunk =
     (case dict_item chunk ''trace'' of
        Inl e \<Rightarrow> Inl e
      | Inr trace \<Rightarrow>
          (case dict_item trace ''timestamp'' of
             Inl e \<Rightarrow> Inl e
           | Inr timestamp \<Rightarrow>
               (case dict_item trace ''message'' of
                  Inl e \<Rightarrow> Inl e
                | Inr message \<Rightarrow>
                    (case timestamp of JStr t \<Rightarrow> Inr () | _ \<Rightarrow> Inl TypeError))))"

section \<open>Correlation of routing events\<close>

text \<open>
  A row of the table \<^verbatim>\<open>synthetics\<close> (class \<^verbatim>\<open>Synthetic\<close>). The column \<^verbatim>\<open>created_at\<close> is
  the SQL expression \<^verbatim>\<open>func.now()\<close>, evaluated by the database at insertion; it is left
  out.
\<close>

record Synthetic =
  instance_id :: string
  parent_invocation_id :: string
  invocation_id :: string
  chute_id :: string
  miner_uid :: string
  miner_hotkey :: string
  has_error :: bool

text \<open>
  The two kinds of classified trace event: \<open>RoutingEvent\<close> is a chunk on which
  \<^verbatim>\<open>_extract_target\<close> returned a target, \<open>RoutingErrorEvent\<close> one on which it returned
  \<^verbatim>\<open>None\<close> and \<^verbatim>\<open>_extract_target_error\<close> returned a target.
\<close>

datatype event = RoutingEvent Target | RoutingErrorEvent Target

text \<open>
  Lines 243 to 258 of \<^verbatim>\<open>_perform_request\<close>: what the loop does to the list \<^verbatim>\<open>synthetics\<close>
  on an event. A routing event appends a row. An error event reads \<^verbatim>\<open>synthetics[-1]\<close>
  (\<open>IndexError\<close> on the empty list), asserts that instance and invocation are the last
  row's, and sets that row's \<^verbatim>\<open>has_error\<close>.
\<close>

fun ingest :: "string \<Rightarrow> string \<Rightarrow> Synthetic list \<Rightarrow> event \<Rightarrow> py_error + Synthetic list" where
  "ingest parent_id cid synthetics (RoutingEvent target) =
     Inr (synthetics @
       [\<lparr>instance_id = target_instance_id target,
         parent_invocation_id = parent_id,
         invocation_id = target_invocation_id target,
         chute_id = cid,
         miner_uid = uid target,
         miner_hotkey = hotkey target,
         has_error = False\<rparr>])"
| "ingest parent_id cid synthetics (RoutingErrorEvent target) =
     (if synthetics = [] then Inl IndexError
      else if target_instance_id target \<noteq> instance_id (last synthetics) then Inl AssertionError
      else if target_invocation_id target \<noteq> invocation_id (last synthetics) then Inl AssertionError
      else Inr (butlast synthetics @ [(last synthetics)\<lparr>has_error := True\<rparr>]))"

text \<open>
  Lines 240 to 262: one decoded payload. \<^verbatim>\<open>_extract_target\<close> is called twice in the source
  (lines 240 and 241) with the same argument and no effect, so once here. The last two
  branches only log, but \<^verbatim>\<open>data["result"].strip()\<close> raises \<open>AttributeError\<close> when the
  result is truthy and not a string.
\<close>

definition handle_data :: "string \<Rightarrow> string \<Rightarrow> Synthetic list \<Rightarrow> json \<Rightarrow> py_error + Synthetic list" where
  "handle_data parent_id cid synthetics data =
     (case extract_target data of
        Inl e \<Rightarrow> Inl e
      | Inr (Some target) \<Rightarrow>
          (case debug_target data of
             Inl e \<Rightarrow> Inl e
           | Inr u \<Rightarrow> ingest parent_id cid synthetics (RoutingEvent target))
      | Inr None \<Rightarrow>
          (case extract_target_error data of
             Inl e \<Rightarrow> Inl e
           | Inr (Some target) \<Rightarrow> ingest parent_id cid synthetics (RoutingErrorEvent target)
           | Inr None \<Rightarrow>
               (case dict_get data ''error'' of
                  Inl e \<Rightarrow> Inl e
                | Inr err \<Rightarrow>
                    if truthy err then Inr synthetics
                    else
                      (case dict_get data ''result'' of
                         Inl e \<Rightarrow> Inl e
                       | Inr res \<Rightarrow>
                           if \<not> truthy res then Inr synthetics
                           else (case res of JStr r \<Rightarrow> Inr synthetics | _ \<Rightarrow> Inl AttributeError)))))"

text \<open>
  Lines 237 to 239: one line of the response body. \<open>loads\<close> is \<^verbatim>\<open>orjson.loads\<close>, a library
  function taken as a parameter; \<open>None\<close> is its \<open>JSONDecodeError\<close>.
\<close>

definition process_chunk ::
  "(string \<Rightarrow> json option) \<Rightarrow> string \<Rightarrow> string \<Rightarrow> Synthetic list \<Rightarrow> string \<Rightarrow> py_error + Synthetic list" where
  "process_chunk loads parent_id cid synthetics chunk_bytes =
     (if chunk_bytes = [] \<or> take 6 chunk_bytes \<noteq> ''data: '' then Inr synthetics
      else
        (case loads (drop 6 chunk_bytes) of
           None \<Rightarrow> Inl JSONDecodeError
         | Some data \<Rightarrow> handle_data parent_id cid synthetics data))"

text \<open>
  What iterating \<^verbatim>\<open>resp.content\<close> yields: the next line, or a transport failure raised by
  the read (the connection broke before the body ended).
\<close>

datatype read = Chunk string | ReadError

text \<open>The loop \<^verbatim>\<open>async for chunk_bytes in resp.content\<close> (lines 236 to 262).\<close>

fun consume ::
  "(string \<Rightarrow> json option) \<Rightarrow> string \<Rightarrow> string \<Rightarrow> Synthetic list \<Rightarrow> read list \<Rightarrow> py_error + Synthetic list" where
  "consume loads parent_id cid synthetics [] = Inr synthetics"
| "consume loads parent_id cid synthetics (ReadError # rest) = Inl ClientError"
| "consume loads parent_id cid synthetics (Chunk chunk_bytes # rest) =
     (case process_chunk loads parent_id cid synthetics chunk_bytes of
        Inl e \<Rightarrow> Inl e
      | Inr synthetics' \<Rightarrow> consume loads parent_id cid synthetics' rest)"

section \<open>One request\<close>

record response =
  status :: int
  headers :: "(string \<times> string) list"
  content :: "read list"

text \<open>
  A chute of the fleet snapshot, with the attributes the code reads. The attribute
  \<^verbatim>\<open>chute_id\<close> is the field \<open>the_chute_id\<close>, since \<^verbatim>\<open>Synthetic\<close> has a column of that name.
\<close>

record chute_instance =
  active :: bool
  verified :: bool

record chute =
  the_chute_id :: string
  name :: string
  standard_template :: string
  instances :: "chute_instance list"

text \<open>
  The request body built by \<^verbatim>\<open>get_random_text_payload\<close>. Its sampling parameters
  (temperature, seed, max_tokens) are random numbers that nothing in the code reads; they
  are left out.
\<close>

record payload =
  model :: string
  messages :: "(string \<times> string) list"

text \<open>
  The body of the \<^verbatim>\<open>try\<close> of \<^verbatim>\<open>_perform_request\<close> (lines 228 to 263). \<open>http_post\<close> is
  \<^verbatim>\<open>session.post\<close>: the response, or the exception of a request that could not be sent.
  \<open>Inr None\<close> is the bare \<^verbatim>\<open>return\<close> of line 234; reading \<^verbatim>\<open>resp.text()\<close> for the warning
  of line 233 may itself raise, which the handler below turns into the same \<^verbatim>\<open>None\<close>.
  The header is read (line 235) before the loop over the body starts.
\<close>

definition perform_request_try ::
  "(string \<Rightarrow> json option) \<Rightarrow> (string \<Rightarrow> payload \<Rightarrow> py_error + response) \<Rightarrow>
   chute \<Rightarrow> payload \<Rightarrow> string \<Rightarrow> py_error + Synthetic list option" where
  "perform_request_try loads http_post chute payload url =
     (case http_post url payload of
        Inl e \<Rightarrow> Inl e
      | Inr resp \<Rightarrow>
          if status resp \<noteq> 200 then Inr None
          else
            (case map_of (headers resp) ''X-Chutes-InvocationID'' of
               None \<Rightarrow> Inl KeyError
             | Some parent_id \<Rightarrow>
                 (case consume loads parent_id (the_chute_id chute) [] (content resp) of
                    Inl e \<Rightarrow> Inl e
                  | Inr synthetics \<Rightarrow> Inr (Some synthetics))))"

text \<open>
  \<^verbatim>\<open>Auditor._perform_request\<close> (lines 223 to 266): every exception of the body is caught,
  logged as a warning, and the function returns \<^verbatim>\<open>None\<close>.
\<close>

definition perform_request ::
  "(string \<Rightarrow> json option) \<Rightarrow> (string \<Rightarrow> payload \<Rightarrow> py_error + response) \<Rightarrow>
   chute \<Rightarrow> payload \<Rightarrow> string \<Rightarrow> Synthetic list option" where
  "perform_request loads http_post chute payload url =
     (case perform_request_try loads http_post chute payload url of
        Inl e \<Rightarrow> None
      | Inr r \<Rightarrow> r)"

section \<open>One cycle and the scheduler loop\<close>

text \<open>
  \<^verbatim>\<open>Auditor._get_vllm_chute\<close> (lines 207 to 221). \<open>chutes\<close> is \<^verbatim>\<open>self.chutes.values()\<close>;
  \<open>pick\<close> is the random number behind \<^verbatim>\<open>random.choice\<close>.
\<close>

definition vllm_chutes :: "chute list \<Rightarrow> chute list" where
  "vllm_chutes chutes =
     filter
       (\<lambda>chute. standard_template chute = ''vllm''
          \<and> list_ex (\<lambda>i. active i \<and> verified i) (instances chute)
          \<and> name chute = ''deepseek-ai/DeepSeek-R1-Distill-Qwen-32B'')
       chutes"

definition get_vllm_chute :: "chute list \<Rightarrow> nat \<Rightarrow> chute option" where
  "get_vllm_chute chutes pick =
     (if vllm_chutes chutes = [] then None
      else Some (vllm_chutes chutes ! (pick mod length (vllm_chutes chutes))))"

text \<open>
  \<^verbatim>\<open>Auditor.get_random_text_payload\<close> (lines 166 to 191) for the endpoint \<^verbatim>\<open>"chat"\<close>.
  \<open>text_prompts\<close> is the loaded dataset, each entry its list of (role, content) messages;
  \<open>r\<close> is the value of \<^verbatim>\<open>random.randint(0, len(self.text_prompts))\<close>, which indexes the
  dataset.
\<close>

definition get_random_text_payload ::
  "(string \<times> string) list list \<Rightarrow> nat \<Rightarrow> string \<Rightarrow> py_error + payload" where
  "get_random_text_payload text_prompts r m =
     (if r < length text_prompts then Inr \<lparr>model = m, messages = text_prompts ! r\<rparr>
      else Inl IndexError)"

text \<open>
  What the outside world contributes to one cycle: the outcome of \<^verbatim>\<open>load_chutes\<close> (the
  fleet directory's answer or the exception of the request), the two random numbers, the
  probe endpoint, and whether the database commits the batch.
\<close>

record world =
  fleet :: "py_error + chute list"
  chute_pick :: nat
  prompt_pick :: nat
  post :: "string \<Rightarrow> payload \<Rightarrow> py_error + response"
  commit_ok :: bool

text \<open>
  The persistence boundary: the committed rows of the table, and how many times
  \<^verbatim>\<open>get_session()\<close> was entered.
\<close>

record store =
  rows :: "Synthetic list"
  sessions :: nat

text \<open>
  \<^verbatim>\<open>Auditor._perform_chat\<close> (lines 325 to 334). Line 333 formats \<^verbatim>\<open>len(synthetics)\<close>
  into its log message, which raises \<open>TypeError\<close> when \<^verbatim>\<open>_perform_request\<close> returned
  \<^verbatim>\<open>None\<close>.
\<close>

definition perform_chat ::
  "(string \<Rightarrow> json option) \<Rightarrow> (string \<times> string) list list \<Rightarrow> world \<Rightarrow> chute list \<Rightarrow>
   py_error + Synthetic list option" where
  "perform_chat loads text_prompts w chutes =
     (case get_vllm_chute chutes (chute_pick w) of
        None \<Rightarrow> Inr None
      | Some chute \<Rightarrow>
          (case get_random_text_payload text_prompts (prompt_pick w) (name chute) of
             Inl e \<Rightarrow> Inl e
           | Inr payload \<Rightarrow>
               (case perform_request loads (post w) chute payload
                       ''https://llm.chutes.ai/v1/chat/completions'' of
                  None \<Rightarrow> Inl TypeError
                | Some synthetics \<Rightarrow> Inr (Some synthetics))))"

text \<open>
  \<^verbatim>\<open>Auditor.perform_synthetic\<close> (lines 336 to 359) with \<^verbatim>\<open>get_session\<close> (lines 37 to 47).
  The task type is always \<^verbatim>\<open>"chat"\<close>. \<^verbatim>\<open>if not synthetics: return\<close> leaves on \<^verbatim>\<open>None\<close>
  and on the empty list, before any session is opened. A failing commit is rolled back and
  raised again by \<^verbatim>\<open>get_session\<close>. The result is the exception that left the function
  (or \<open>Inr ()\<close> when it returned) and the store afterwards.
\<close>

definition perform_synthetic ::
  "(string \<Rightarrow> json option) \<Rightarrow> (string \<times> string) list list \<Rightarrow> world \<Rightarrow> store \<Rightarrow>
   (py_error + unit) \<times> store" where
  "perform_synthetic loads text_prompts w st =
     (case fleet w of
        Inl e \<Rightarrow> (Inl e, st)
      | Inr chutes \<Rightarrow>
          (case perform_chat loads text_prompts w chutes of
             Inl e \<Rightarrow> (Inl e, st)
           | Inr None \<Rightarrow> (Inr (), st)
           | Inr (Some synthetics) \<Rightarrow>
               if synthetics = [] then (Inr (), st)
               else if commit_ok w
               then (Inr (), st\<lparr>rows := rows st @ synthetics, sessions := Suc (sessions st)\<rparr>)
               else (Inl DatabaseError, st\<lparr>sessions := Suc (sessions st)\<rparr>)))"

text \<open>
  \<^verbatim>\<open>Auditor.perform_synthetics\<close> (lines 373 to 379): \<^verbatim>\<open>while self._running\<close>, one cycle
  and a sleep of 60 seconds. The loop has no handler, so an exception of a cycle leaves
  it. Nothing in the loop writes \<^verbatim>\<open>_running\<close>; it is a parameter. The list holds the
  world of each coming cycle: the loop ends \<open>Stopped\<close> when the flag is off, \<open>Raised\<close> when
  a cycle raised, and \<open>Running\<close> when it is still going after the last world given.
\<close>

datatype loop_end = Stopped | Raised py_error | Running

fun perform_synthetics ::
  "(string \<Rightarrow> json option) \<Rightarrow> (string \<times> string) list list \<Rightarrow> bool \<Rightarrow> world list \<Rightarrow> store \<Rightarrow>
   loop_end \<times> store" where
  "perform_synthetics loads text_prompts running [] st =
     (if running then (Running, st) else (Stopped, st))"
| "perform_synthetics loads text_prompts running (w # ws) st =
     (if \<not> running then (Stopped, st)
      else
        (case perform_synthetic loads text_prompts w st of
           (Inl e, st') \<Rightarrow> (Raised e, st')
         | (Inr u, st') \<Rightarrow> perform_synthetics loads text_prompts running ws st'))"

section \<open>Example inputs\<close>

text \<open>
  Concrete inputs on which the statements below are evaluated. \<open>ex_routing i v\<close> is the
  decoded payload of a routing trace for instance \<open>i\<close> and invocation \<open>v\<close>, \<open>ex_error i v\<close>
  the payload of the error trace for the same pair, \<open>ex_no_invocation\<close> a routing
  trace whose trace object has no \<^verbatim>\<open>invocation_id\<close>, and \<open>ex_no_timestamp\<close> a routing trace
  whose trace object has no \<^verbatim>\<open>timestamp\<close>.
\<close>

definition ex_routing :: "string \<Rightarrow> string \<Rightarrow> json" where
  "ex_routing i v =
     JObj [(''trace'', JObj
       [(''timestamp'', JStr ''2025-01-01T00:00:00''),
        (''invocation_id'', JStr v),
        (''message'', JStr (''query target='' @ i @ '' uid=7 hotkey=5Fhk''))])]"

definition ex_error :: "string \<Rightarrow> string \<Rightarrow> json" where
  "ex_error i v =
     JObj [(''trace'', JObj
       [(''timestamp'', JStr ''2025-01-01T00:00:01''),
        (''invocation_id'', JStr v),
        (''message'', JStr (''error encountered while querying target='' @ i
            @ '' uid=7 hotkey=5Fhk coldkey=5Cck: timeout''))])]"

definition ex_no_invocation :: json where
  "ex_no_invocation =
     JObj [(''trace'', JObj
       [(''timestamp'', JStr ''2025-01-01T00:00:02''),
        (''message'', JStr ''query target=ia uid=7 hotkey=5Fhk'')])]"

definition ex_no_timestamp :: json where
  "ex_no_timestamp =
     JObj [(''trace'', JObj
       [(''invocation_id'', JStr ''va''),
        (''message'', JStr ''query target=ia uid=7 hotkey=5Fhk'')])]"

text \<open>
  A decoder for the examples. The payload texts \<open>A\<close>, \<open>B\<close>, \<open>errA\<close>, \<open>errB\<close>, \<open>noinv\<close>,
  \<open>notime\<close> and \<open>token\<close> stand for the JSON texts of the values shown; every other text is
  malformed.
\<close>

definition ex_loads :: "string \<Rightarrow> json option" where
  "ex_loads s =
     (if s = ''A'' then Some (ex_routing ''ia'' ''va'')
      else if s = ''B'' then Some (ex_routing ''ib'' ''vb'')
      else if s = ''errA'' then Some (ex_error ''ia'' ''va'')
      else if s = ''errB'' then Some (ex_error ''ib'' ''vb'')
      else if s = ''noinv'' then Some ex_no_invocation
      else if s = ''notime'' then Some ex_no_timestamp
      else if s = ''token'' then Some (JObj [(''result'', JStr ''Hello'')])
      else None)"

definition ex_chute :: chute where
  "ex_chute =
     \<lparr>the_chute_id = ''c1'', name = ''deepseek-ai/DeepSeek-R1-Distill-Qwen-32B'',
      standard_template = ''vllm'', instances = [\<lparr>active = True, verified = True\<rparr>]\<rparr>"

definition ex_cold_chute :: chute where
  "ex_cold_chute =
     \<lparr>the_chute_id = ''c2'', name = ''deepseek-ai/DeepSeek-R1-Distill-Qwen-32B'',
      standard_template = ''vllm'',
      instances = [\<lparr>active = True, verified = False\<rparr>, \<lparr>active = False, verified = True\<rparr>]\<rparr>"

definition ex_prompts :: "(string \<times> string) list list" where
  "ex_prompts = [[(''user'', ''Hi'')]]"

definition ex_payload :: payload where
  "ex_payload = \<lparr>model = ''deepseek-ai/DeepSeek-R1-Distill-Qwen-32B'', messages = [(''user'', ''Hi'')]\<rparr>"

definition ex_url :: string where
  "ex_url = ''https://llm.chutes.ai/v1/chat/completions''"

text \<open>A response with the given status and body, and the parent identifier \<open>p1\<close>.\<close>

definition ex_response :: "int \<Rightarrow> read list \<Rightarrow> response" where
  "ex_response code body =
     \<lparr>status = code, headers = [(''X-Chutes-InvocationID'', ''p1'')], content = body\<rparr>"

text \<open>
  A world whose fleet is the one hot chute \<open>ex_chute\<close> and whose probe endpoint answers
  every request with \<open>resp\<close>.
\<close>

definition ex_world :: "response \<Rightarrow> bool \<Rightarrow> world" where
  "ex_world resp ok =
     \<lparr>fleet = Inr [ex_chute], chute_pick = 0, prompt_pick = 0,
      post = (\<lambda>url payload. Inr resp), commit_ok = ok\<rparr>"

definition ex_store :: store where
  "ex_store = \<lparr>rows = [], sessions = 0\<rparr>"

text \<open>The row the loop builds from \<open>ex_routing i v\<close> in a cycle of \<open>ex_world\<close>.\<close>

definition ex_row :: "string \<Rightarrow> string \<Rightarrow> bool \<Rightarrow> Synthetic" where
  "ex_row i v b =
     \<lparr>instance_id = i, parent_invocation_id = ''p1'', invocation_id = v, chute_id = ''c1'',
      miner_uid = ''7'', miner_hotkey = ''5Fhk'', has_error = b\<rparr>"

section \<open>The routing pattern\<close>

text \<open>
  A greedy repetition followed by a character outside its class (or by the end of the
  text) takes exactly the run of class characters in front of it; no backtracking happens
  when the rest of the pattern matches behind the run.
\<close>

lemma takeWhile_exact:
  "\<forall>c\<in>set a. P c \<Longrightarrow> rest = [] \<or> \<not> P (hd rest) \<Longrightarrow> takeWhile P (a @ rest) = a"
  by (induction a) (auto simp: takeWhile_eq_Nil_iff neq_Nil_conv)

lemma match_here_Lit: "match_here (Lit l # ts) (l @ s) = match_here ts s"
  by simp

lemma match_here_Rep_greedy:
  assumes "a \<noteq> []" and "\<forall>c\<in>set a. in_cls k c" and "rest = [] \<or> \<not> in_cls k (hd rest)"
    and "match_here ts rest = Some gs"
  shows "match_here (Rep k 1 True # ts) (a @ rest) = Some (a # gs)"
proof -
  have tw: "takeWhile (in_cls k) (a @ rest) = a"
    using assms(2,3) by (rule takeWhile_exact)
  have len: "Suc 0 \<le> length a"
    using assms(1) by (cases a) simp_all
  have cands: "rev [1 ..< Suc (length a)] = length a # rev [1 ..< length a]"
    using len by simp
  have "match_here (Rep k 1 True # ts) (a @ rest) =
      first_some
       (\<lambda>n. case match_here ts (drop n (a @ rest)) of
              None \<Rightarrow> None
            | Some gs \<Rightarrow> Some (if True then take n (a @ rest) # gs else gs))
       (rev [1 ..< Suc (length a)])"
    by (simp only: match_here.simps tw)
  also have "\<dots> = Some (a # gs)"
    by (simp only: cands first_some.simps) (simp add: assms(4))
  finally show ?thesis .
qed

text \<open>
  The message \<^verbatim>\<open>query target=I uid=U hotkey=H\<close> is found by \<^verbatim>\<open>re.search\<close> at its first
  character, whenever \<open>I\<close> and \<open>H\<close> hold no space and \<open>U\<close> only digits.
\<close>

lemma digit_in_DigitOrPlus: "c \<in> set ''0123456789'' \<Longrightarrow> in_cls DigitOrPlus c"
  by simp blast

lemma routing_re_match:
  assumes "I \<noteq> []" "CHR '' '' \<notin> set I"
    and "U \<noteq> []" "\<forall>c\<in>set U. c \<in> set ''0123456789''"
    and "H \<noteq> []" "CHR '' '' \<notin> set H"
  shows "re_search routing_re (''query target='' @ I @ '' uid='' @ U @ '' hotkey='' @ H)
           = Some [I, U, H]"
proof -
  have cI: "\<forall>c\<in>set I. in_cls NotSpace c"
    using assms(2) by auto
  have cH: "\<forall>c\<in>set H. in_cls NotSpace c"
    using assms(6) by auto
  have cU: "\<forall>c\<in>set U. in_cls DigitOrPlus c"
    using assms(4) digit_in_DigitOrPlus by blast
  have e3: "[] = [] \<or> \<not> in_cls NotSpace (hd [])"
    by simp
  have e2: "'' hotkey='' @ H = [] \<or> \<not> in_cls DigitOrPlus (hd ('' hotkey='' @ H))"
    by simp
  have e1: "'' uid='' @ U @ '' hotkey='' @ H = []
              \<or> \<not> in_cls NotSpace (hd ('' uid='' @ U @ '' hotkey='' @ H))"
    by simp
  have "match_here [Rep NotSpace 1 True] (H @ []) = Some [H]"
    by (rule match_here_Rep_greedy [OF assms(5) cH e3]) simp
  then have "match_here [Lit '' hotkey='', Rep NotSpace 1 True] ('' hotkey='' @ H) = Some [H]"
    by (simp only: match_here_Lit append_Nil2)
  then have "match_here [Rep DigitOrPlus 1 True, Lit '' hotkey='', Rep NotSpace 1 True]
              (U @ '' hotkey='' @ H) = Some [U, H]"
    by (rule match_here_Rep_greedy [OF assms(3) cU e2])
  then have "match_here
              [Lit '' uid='', Rep DigitOrPlus 1 True, Lit '' hotkey='', Rep NotSpace 1 True]
              ('' uid='' @ U @ '' hotkey='' @ H) = Some [U, H]"
    by (simp only: match_here_Lit)
  then have "match_here
              [Rep NotSpace 1 True, Lit '' uid='', Rep DigitOrPlus 1 True,
               Lit '' hotkey='', Rep NotSpace 1 True]
              (I @ '' uid='' @ U @ '' hotkey='' @ H) = Some [I, U, H]"
    by (rule match_here_Rep_greedy [OF assms(1) cI e1])
  then have mq: "match_here routing_re
              (''query target='' @ I @ '' uid='' @ U @ '' hotkey='' @ H) = Some [I, U, H]"
    unfolding routing_re_def by (simp only: match_here_Lit)
  have ne: "''query target='' @ I @ '' uid='' @ U @ '' hotkey='' @ H
              = CHR ''q'' # (''uery target='' @ I @ '' uid='' @ U @ '' hotkey='' @ H)"
    by simp
  show ?thesis
    using mq by (simp only: ne re_search.simps option.case)
qed

text \<open>
  Claim C2, as the spec states it, fails: a uid that is not numeric does not match
  \<^verbatim>\<open>[0-9+]+\<close>, and \<^verbatim>\<open>_extract_target\<close> returns \<^verbatim>\<open>None\<close> for the message
  \<^verbatim>\<open>query target=ia uid=miner7 hotkey=5Fhk\<close>.
\<close>

theorem extract_target_uid_counterexample:
  "extract_target
     (JObj [(''trace'', JObj
        [(''invocation_id'', JStr ''va''),
         (''message'', JStr ''query target=ia uid=miner7 hotkey=5Fhk'')])])
   = Inr None"
  by code_simp

text \<open>
  Claim C2, amended. For a payload whose trace object holds a string \<^verbatim>\<open>invocation_id\<close> and
  the message \<^verbatim>\<open>query target=I uid=U hotkey=H\<close>, where \<open>I\<close> and \<open>H\<close> are non-empty and hold
  no space and \<open>U\<close> is a non-empty string of decimal digits, \<^verbatim>\<open>_extract_target\<close> returns the
  target with instance \<open>I\<close>, uid \<open>U\<close> and hotkey \<open>H\<close>, exactly as they stand in the message.
\<close>

theorem extract_target_fields:
  assumes "I \<noteq> []" and "CHR '' '' \<notin> set I"
    and "U \<noteq> []" and "\<forall>c\<in>set U. c \<in> set ''0123456789''"
    and "H \<noteq> []" and "CHR '' '' \<notin> set H"
    and "map_of chunk ''trace'' = Some (JObj tr)"
    and "map_of tr ''message''
           = Some (JStr (''query target='' @ I @ '' uid='' @ U @ '' hotkey='' @ H))"
    and "map_of tr ''invocation_id'' = Some (JStr v)"
  shows "extract_target (JObj chunk) =
           Inr (Some \<lparr>target_instance_id = I, target_invocation_id = v,
                       uid = U, hotkey = H, error = None\<rparr>)"
proof -
  have "tr \<noteq> []" using assms(9) by auto
  moreover have "re_search routing_re
      (''query target='' @ I @ '' uid='' @ U @ '' hotkey='' @ H) = Some [I, U, H]"
    using assms(1-6) by (rule routing_re_match)
  ultimately show ?thesis
    unfolding extract_target_def
    by (simp only: dict_get.simps assms(7-9) option.case sum.case truthy.simps
          search_message.simps new_Target.simps) simp
qed

text \<open>The amended statement at the example routing payload.\<close>

theorem extract_target_fields_witness:
  "extract_target (ex_routing ''ia'' ''va'') =
     Inr (Some \<lparr>target_instance_id = ''ia'', target_invocation_id = ''va'',
                 uid = ''7'', hotkey = ''5Fhk'', error = None\<rparr>)"
  using extract_target_fields
    [of "''ia''" "''7''" "''5Fhk''"
        "[(''trace'', JObj
           [(''timestamp'', JStr ''2025-01-01T00:00:00''),
            (''invocation_id'', JStr ''va''),
            (''message'', JStr (''query target='' @ ''ia'' @ '' uid=7 hotkey=5Fhk''))])]"
        "[(''timestamp'', JStr ''2025-01-01T00:00:00''),
            (''invocation_id'', JStr ''va''),
            (''message'', JStr (''query target='' @ ''ia'' @ '' uid=7 hotkey=5Fhk''))]"
        "''va''"]
  by (simp add: ex_routing_def)

section \<open>Exceptions inside the read loop\<close>

text \<open>
  A line on which the loop body raises, whatever rows were collected before it, makes the
  whole loop raise; so does a failing read. \<^verbatim>\<open>_perform_request\<close> then returns \<^verbatim>\<open>None\<close>.
\<close>

lemma consume_raises:
  assumes "Chunk b \<in> set body"
    and "\<And>syn. \<exists>e. process_chunk loads p c syn b = Inl e"
  shows "\<exists>e. consume loads p c syn body = Inl e"
  using assms(1)
proof (induction body arbitrary: syn)
  case Nil
  then show ?case by simp
next
  case (Cons x xs)
  show ?case
  proof (cases x)
    case ReadError
    then show ?thesis by simp
  next
    case (Chunk b')
    show ?thesis
    proof (cases "process_chunk loads p c syn b'")
      case (Inl e)
      then show ?thesis using Chunk by simp
    next
      case (Inr syn')
      have "b' \<noteq> b" using Inr assms(2) [of syn] by auto
      then have "Chunk b \<in> set xs" using Cons.prems Chunk by simp
      then show ?thesis using Cons.IH [of syn'] Chunk Inr by simp
    qed
  qed
qed

lemma consume_ReadError:
  "ReadError \<in> set body \<Longrightarrow> \<exists>e. consume loads p c syn body = Inl e"
proof (induction body arbitrary: syn)
  case Nil
  then show ?case by simp
next
  case (Cons x xs)
  show ?case
  proof (cases x)
    case ReadError
    then show ?thesis by simp
  next
    case (Chunk b')
    then have "ReadError \<in> set xs" using Cons.prems by simp
    then show ?thesis using Cons.IH Chunk
      by (cases "process_chunk loads p c syn b'") simp_all
  qed
qed

lemma perform_request_None:
  assumes "http_post url payload = Inr resp"
    and "\<And>p. \<exists>e. consume loads p (the_chute_id chute) [] (content resp) = Inl e"
  shows "perform_request loads http_post chute payload url = None"
proof (cases "map_of (headers resp) ''X-Chutes-InvocationID''")
  case None
  then show ?thesis
    using assms(1) by (simp add: perform_request_def perform_request_try_def)
next
  case (Some p)
  obtain e where "consume loads p (the_chute_id chute) [] (content resp) = Inl e"
    using assms(2) by blast
  then show ?thesis
    using assms(1) Some by (simp add: perform_request_def perform_request_try_def)
qed

text \<open>
  A cycle in which every request comes back as \<^verbatim>\<open>None\<close> leaves the store as it was: no
  session is opened and no row is added.
\<close>

lemma perform_synthetic_keeps_store:
  assumes "\<And>chute payload url. perform_request loads (post w) chute payload url = None"
  shows "snd (perform_synthetic loads tp w st) = st"
proof (cases "fleet w")
  case (Inl e)
  then show ?thesis by (simp add: perform_synthetic_def)
next
  case (Inr chutes)
  have "perform_chat loads tp w chutes = Inr None \<or> (\<exists>e. perform_chat loads tp w chutes = Inl e)"
    unfolding perform_chat_def
    by (simp add: assms split: option.splits sum.splits)
  then show ?thesis
    using Inr by (auto simp: perform_synthetic_def)
qed

lemma process_chunk_data:
  assumes "take 6 b = ''data: ''" and "loads (drop 6 b) = Some data"
  shows "process_chunk loads p c syn b = handle_data p c syn data"
proof -
  have "b \<noteq> []" using assms(1) by auto
  then show ?thesis using assms by (simp add: process_chunk_def)
qed

lemma process_chunk_malformed:
  assumes "take 6 b = ''data: ''" and "loads (drop 6 b) = None"
  shows "process_chunk loads p c syn b = Inl JSONDecodeError"
proof -
  have "b \<noteq> []" using assms(1) by auto
  then show ?thesis using assms by (simp add: process_chunk_def)
qed

section \<open>Failures of the trace extractor\<close>

text \<open>
  Claim C10. \<^verbatim>\<open>_extract_target\<close> is not total: on a payload whose trace message matches
  the routing pattern and whose trace object has no \<^verbatim>\<open>invocation_id\<close> it raises the
  \<open>ValidationError\<close> of \<^verbatim>\<open>Target\<close> instead of returning a target or \<^verbatim>\<open>None\<close>. Inside
  \<^verbatim>\<open>_perform_request\<close> the exception ends the cycle: whenever such a payload is a line of
  the response body, the function returns \<^verbatim>\<open>None\<close>, whatever rows the lines before it
  produced.
\<close>

theorem extract_target_raises:
  assumes "map_of chunk ''trace'' = Some (JObj tr)"
    and "map_of tr ''message'' = Some (JStr m)"
    and "re_search routing_re m = Some gs"
    and "map_of tr ''invocation_id'' = None"
    and "take 6 b = ''data: ''"
    and "loads (drop 6 b) = Some (JObj chunk)"
    and "http_post url payload = Inr resp"
    and "Chunk b \<in> set (content resp)"
  shows "extract_target (JObj chunk) = Inl ValidationError
       \<and> perform_request loads http_post chute payload url = None"
proof -
  have "tr \<noteq> []" using assms(2) by auto
  then have ex: "extract_target (JObj chunk) = Inl ValidationError"
    by (simp add: extract_target_def assms(1-4))
  have "process_chunk loads p c syn b = Inl ValidationError" for p c syn
    using assms(5,6) ex by (simp add: process_chunk_data handle_data_def)
  then have "\<exists>e. consume loads p (the_chute_id chute) [] (content resp) = Inl e" for p
    using assms(8) by (intro consume_raises) auto
  then have "perform_request loads http_post chute payload url = None"
    using assms(7) by (intro perform_request_None)
  then show ?thesis using ex by simp
qed

text \<open>
  The statement at the example payload without \<^verbatim>\<open>invocation_id\<close>, second line of a body
  whose first line alone gives one row.
\<close>

theorem extract_target_raises_witness:
  "extract_target ex_no_invocation = Inl ValidationError
   \<and> perform_request ex_loads
        (\<lambda>url payload. Inr (ex_response 200 [Chunk ''data: A'', Chunk ''data: noinv'']))
        ex_chute ex_payload ex_url = None
   \<and> perform_request ex_loads
        (\<lambda>url payload. Inr (ex_response 200 [Chunk ''data: A'']))
        ex_chute ex_payload ex_url = Some [ex_row ''ia'' ''va'' False]"
proof -
  have before: "perform_request ex_loads
        (\<lambda>url payload. Inr (ex_response 200 [Chunk ''data: A'']))
        ex_chute ex_payload ex_url = Some [ex_row ''ia'' ''va'' False]"
    by code_simp
  have found: "re_search routing_re ''query target=ia uid=7 hotkey=5Fhk'' = Some [''ia'', ''7'', ''5Fhk'']"
    by code_simp
  have h1: "map_of [(''trace'', JObj
           [(''timestamp'', JStr ''2025-01-01T00:00:02''),
            (''message'', JStr ''query target=ia uid=7 hotkey=5Fhk'')])] ''trace''
        = Some (JObj [(''timestamp'', JStr ''2025-01-01T00:00:02''),
            (''message'', JStr ''query target=ia uid=7 hotkey=5Fhk'')])"
    by simp
  have h2: "map_of [(''timestamp'', JStr ''2025-01-01T00:00:02''),
            (''message'', JStr ''query target=ia uid=7 hotkey=5Fhk'')] ''message''
        = Some (JStr ''query target=ia uid=7 hotkey=5Fhk'')"
    by simp
  have h4: "map_of [(''timestamp'', JStr ''2025-01-01T00:00:02''),
            (''message'', JStr ''query target=ia uid=7 hotkey=5Fhk'')] ''invocation_id''
        = None"
    by simp
  have h5: "take 6 ''data: noinv'' = ''data: ''"
    by simp
  have h6: "ex_loads (drop 6 ''data: noinv'') = Some (JObj [(''trace'', JObj
           [(''timestamp'', JStr ''2025-01-01T00:00:02''),
            (''message'', JStr ''query target=ia uid=7 hotkey=5Fhk'')])])"
    by (simp add: ex_loads_def ex_no_invocation_def)
  have h7: "(\<lambda>url payload. Inr (ex_response 200 [Chunk ''data: A'', Chunk ''data: noinv'']))
              ex_url ex_payload
            = (Inr (ex_response 200 [Chunk ''data: A'', Chunk ''data: noinv''])
                 :: py_error + response)"
    by simp
  have h8: "Chunk ''data: noinv''
              \<in> set (content (ex_response 200 [Chunk ''data: A'', Chunk ''data: noinv'']))"
    by (simp add: ex_response_def)
  have "extract_target
         (JObj [(''trace'', JObj
           [(''timestamp'', JStr ''2025-01-01T00:00:02''),
            (''message'', JStr ''query target=ia uid=7 hotkey=5Fhk'')])])
          = Inl ValidationError
       \<and> perform_request ex_loads
        (\<lambda>url payload. Inr (ex_response 200 [Chunk ''data: A'', Chunk ''data: noinv'']))
        ex_chute ex_payload ex_url = None"
    by (rule extract_target_raises
          [where loads = ex_loads and url = ex_url and payload = ex_payload
             and http_post = "\<lambda>url payload.
                   Inr (ex_response 200 [Chunk ''data: A'', Chunk ''data: noinv''])",
           OF h1 h2 found h4 h5 h6 h7 h8])
  then show ?thesis using before by (simp add: ex_no_invocation_def)
qed

section \<open>Interrupted streams\<close>

text \<open>
  Claim C3, as the spec states it, fails: after one routing event was ingested (the loop
  holds its row), a failing read makes \<^verbatim>\<open>_perform_request\<close> return \<^verbatim>\<open>None\<close>, and the
  cycle commits no row.
\<close>

theorem stream_interrupted_counterexample:
  "consume ex_loads ''p1'' ''c1'' [] [Chunk ''data: A''] = Inr [ex_row ''ia'' ''va'' False]
   \<and> perform_request ex_loads
        (\<lambda>url payload. Inr (ex_response 200 [Chunk ''data: A'', ReadError]))
        ex_chute ex_payload ex_url = None
   \<and> rows (snd (perform_synthetic ex_loads ex_prompts
        (ex_world (ex_response 200 [Chunk ''data: A'', ReadError]) True) ex_store)) = []"
  by code_simp

text \<open>
  Claim C3, amended. When reading the response body fails, after any number of events
  have been ingested, \<^verbatim>\<open>_perform_request\<close> catches the failure and returns \<^verbatim>\<open>None\<close>: the
  rows built from the events read so far are discarded, and the cycle leaves the store
  as it was.
\<close>

theorem stream_interrupted_discards:
  assumes "ReadError \<in> set (content resp)"
    and "\<And>url payload. post w url payload = Inr resp"
  shows "perform_request loads (post w) chute payload url = None
       \<and> snd (perform_synthetic loads tp w st) = st"
proof -
  have none: "perform_request loads (post w) chute' payload' url' = None" for chute' payload' url'
  proof (rule perform_request_None)
    show "post w url' payload' = Inr resp" by (rule assms(2))
    show "\<exists>e. consume loads p (the_chute_id chute') [] (content resp) = Inl e" for p
      using assms(1) by (rule consume_ReadError)
  qed
  then have "snd (perform_synthetic loads tp w st) = st"
    by (rule perform_synthetic_keeps_store)
  then show ?thesis using none by simp
qed

text \<open>The amended statement at a body whose read fails after one routing event.\<close>

theorem stream_interrupted_discards_witness:
  "perform_request ex_loads
      (post (ex_world (ex_response 200 [Chunk ''data: A'', ReadError]) True))
      ex_chute ex_payload ex_url = None
   \<and> snd (perform_synthetic ex_loads ex_prompts
        (ex_world (ex_response 200 [Chunk ''data: A'', ReadError]) True) ex_store) = ex_store"
  by (rule stream_interrupted_discards
        [where resp = "ex_response 200 [Chunk ''data: A'', ReadError]"])
     (simp_all add: ex_response_def ex_world_def)

section \<open>Lines that are not trace events\<close>

text \<open>
  A line on which the loop body returns the rows unchanged can be taken out of the body
  without changing the result of the loop. A decoded object without trace field is such
  a line when its result field is absent or a string.
\<close>

lemma consume_skip:
  assumes "\<And>syn. process_chunk loads p c syn b = Inr syn"
  shows "consume loads p c syn (pre @ Chunk b # rest) = consume loads p c syn (pre @ rest)"
proof (induction pre arbitrary: syn)
  case Nil
  show ?case by (simp add: assms)
next
  case (Cons x xs)
  show ?case
  proof (cases x)
    case ReadError
    then show ?thesis by simp
  next
    case (Chunk b')
    then show ?thesis
      using Cons.IH by (cases "process_chunk loads p c syn b'") simp_all
  qed
qed

lemma handle_data_no_trace:
  assumes "map_of kvs ''trace'' = None"
    and "map_of kvs ''result'' = None \<or> (\<exists>r. map_of kvs ''result'' = Some (JStr r))"
  shows "handle_data p c syn (JObj kvs) = Inr syn"
proof -
  have t: "extract_target (JObj kvs) = Inr None"
    by (simp add: extract_target_def assms(1))
  have e: "extract_target_error (JObj kvs) = Inr None"
    by (simp add: extract_target_error_def assms(1))
  show ?thesis
    using assms(2) by (auto simp: handle_data_def t e)
qed

text \<open>
  Claim C5, as the spec states it, fails for a malformed chunk: \<^verbatim>\<open>json.loads\<close> raises
  inside the \<^verbatim>\<open>try\<close> of \<^verbatim>\<open>_perform_request\<close>. A body whose first line gives a row returns
  that row, and the same body followed by the malformed line \<^verbatim>\<open>data: {oops\<close> returns
  \<^verbatim>\<open>None\<close>.
\<close>

theorem malformed_chunk_counterexample:
  "perform_request ex_loads
      (\<lambda>url payload. Inr (ex_response 200 [Chunk ''data: A'']))
      ex_chute ex_payload ex_url = Some [ex_row ''ia'' ''va'' False]
   \<and> ex_loads (drop 6 ''data: {oops'') = None
   \<and> perform_request ex_loads
      (\<lambda>url payload. Inr (ex_response 200 [Chunk ''data: A'', Chunk ''data: {oops'']))
      ex_chute ex_payload ex_url = None"
  by code_simp

text \<open>
  Claim C5, amended. A line that is empty or does not start with \<^verbatim>\<open>data: \<close>, and a line
  whose payload is an object without trace field (its result field absent or a string),
  is skipped: the loop gives the same result as on the body without that line, so the
  classification and correlation of the other events is not affected. A line
  \<^verbatim>\<open>data: ...\<close> whose payload is not well-formed JSON is not skipped: it ends the cycle,
  and \<^verbatim>\<open>_perform_request\<close> returns \<^verbatim>\<open>None\<close>.
\<close>

theorem unclassified_chunks:
  "(b = [] \<or> take 6 b \<noteq> ''data: ''
      \<or> (loads (drop 6 b) = Some (JObj kvs) \<and> map_of kvs ''trace'' = None
           \<and> (map_of kvs ''result'' = None \<or> (\<exists>r. map_of kvs ''result'' = Some (JStr r))))
    \<longrightarrow> consume loads p c syn (pre @ Chunk b # rest) = consume loads p c syn (pre @ rest))
   \<and> (take 6 b = ''data: '' \<and> loads (drop 6 b) = None
         \<and> http_post url payload = Inr resp \<and> Chunk b \<in> set (content resp)
    \<longrightarrow> perform_request loads http_post chute payload url = None)"
proof (intro conjI impI)
  assume skip: "b = [] \<or> take 6 b \<noteq> ''data: ''
      \<or> (loads (drop 6 b) = Some (JObj kvs) \<and> map_of kvs ''trace'' = None
           \<and> (map_of kvs ''result'' = None \<or> (\<exists>r. map_of kvs ''result'' = Some (JStr r))))"
  have "process_chunk loads p c syn' b = Inr syn'" for syn'
  proof (cases "b = [] \<or> take 6 b \<noteq> ''data: ''")
    case True
    then show ?thesis by (auto simp: process_chunk_def)
  next
    case False
    then have d: "take 6 b = ''data: ''" by simp
    from False skip have l: "loads (drop 6 b) = Some (JObj kvs)"
      and t: "map_of kvs ''trace'' = None"
      and r: "map_of kvs ''result'' = None \<or> (\<exists>r. map_of kvs ''result'' = Some (JStr r))"
      by blast+
    show ?thesis
      using process_chunk_data [where loads = loads, OF d l] handle_data_no_trace [OF t r]
      by simp
  qed
  then show "consume loads p c syn (pre @ Chunk b # rest) = consume loads p c syn (pre @ rest)"
    by (rule consume_skip)
next
  assume bad: "take 6 b = ''data: '' \<and> loads (drop 6 b) = None
         \<and> http_post url payload = Inr resp \<and> Chunk b \<in> set (content resp)"
  then have "process_chunk loads p' c' syn' b = Inl JSONDecodeError" for p' c' syn'
    by (simp add: process_chunk_malformed)
  then have "\<exists>e. consume loads p' (the_chute_id chute) [] (content resp) = Inl e" for p'
    using bad by (intro consume_raises) auto
  then show "perform_request loads http_post chute payload url = None"
    using bad by (intro perform_request_None) auto
qed

text \<open>
  The amended statement at a token line between a routing event and its error event,
  and at a malformed line after a routing event.
\<close>

theorem unclassified_chunks_witness:
  "consume ex_loads ''p1'' ''c1'' [] ([Chunk ''data: A''] @ Chunk ''data: token'' # [Chunk ''data: errA''])
     = consume ex_loads ''p1'' ''c1'' [] ([Chunk ''data: A''] @ [Chunk ''data: errA''])
   \<and> consume ex_loads ''p1'' ''c1'' [] ([Chunk ''data: A''] @ [Chunk ''data: errA''])
     = Inr [ex_row ''ia'' ''va'' True]
   \<and> perform_request ex_loads
      (\<lambda>url payload. Inr (ex_response 200 [Chunk ''data: A'', Chunk ''data: {oops'']))
      ex_chute ex_payload ex_url = None"
proof -
  have a: "consume ex_loads ''p1'' ''c1'' [] ([Chunk ''data: A''] @ [Chunk ''data: errA''])
     = Inr [ex_row ''ia'' ''va'' True]"
    by code_simp
  have l: "ex_loads (drop 6 ''data: token'') = Some (JObj [(''result'', JStr ''Hello'')])"
    by (simp add: ex_loads_def)
  have m: "ex_loads (drop 6 ''data: {oops'') = None"
    by (simp add: ex_loads_def)
  have k: "Chunk ''data: {oops''
             \<in> set (content (ex_response 200 [Chunk ''data: A'', Chunk ''data: {oops'']))"
    by (simp add: ex_response_def)
  have s: "consume ex_loads ''p1'' ''c1'' []
             ([Chunk ''data: A''] @ Chunk ''data: token'' # [Chunk ''data: errA''])
           = consume ex_loads ''p1'' ''c1'' [] ([Chunk ''data: A''] @ [Chunk ''data: errA''])"
    using unclassified_chunks
      [where b = "''data: token''" and loads = ex_loads
         and kvs = "[(''result'', JStr ''Hello'')]"
         and p = "''p1''" and c = "''c1''" and syn = "[]"
         and pre = "[Chunk ''data: A'']" and rest = "[Chunk ''data: errA'']"]
      l by simp
  have n: "perform_request ex_loads
      (\<lambda>url payload. Inr (ex_response 200 [Chunk ''data: A'', Chunk ''data: {oops'']))
      ex_chute ex_payload ex_url = None"
    using unclassified_chunks
      [where b = "''data: {oops''" and loads = ex_loads
         and http_post = "\<lambda>url payload.
              Inr (ex_response 200 [Chunk ''data: A'', Chunk ''data: {oops''])"
         and resp = "ex_response 200 [Chunk ''data: A'', Chunk ''data: {oops'']"
         and url = ex_url and payload = ex_payload and chute = ex_chute]
      m k by simp
  show ?thesis using a s n by simp
qed

section \<open>Protocol violations\<close>

text \<open>The loop on a body in two parts: the rows of the first part are where the second starts.\<close>

lemma consume_append:
  "consume loads p c syn (pre @ rest) =
     (case consume loads p c syn pre of
        Inl e \<Rightarrow> Inl e
      | Inr syn' \<Rightarrow> consume loads p c syn' rest)"
proof (induction pre arbitrary: syn)
  case Nil
  show ?case by simp
next
  case (Cons x xs)
  show ?case
  proof (cases x)
    case ReadError
    then show ?thesis by simp
  next
    case (Chunk b')
    then show ?thesis
      using Cons.IH by (cases "process_chunk loads p c syn b'") simp_all
  qed
qed

text \<open>
  Claim C6. Let the lines before an error event give the rows \<open>syn\<close>. When \<open>syn\<close> is empty,
  or the event's instance or invocation is not the one of the last row, the correlation
  step raises (\<open>IndexError\<close> from \<^verbatim>\<open>synthetics[-1]\<close>, \<open>AssertionError\<close> from the two
  \<^verbatim>\<open>assert\<close>s) instead of continuing; the exception leaves the body of the \<^verbatim>\<open>try\<close>, so
  \<^verbatim>\<open>_perform_request\<close> returns \<^verbatim>\<open>None\<close>, and the cycle leaves the store as it was: it
  commits no row.
\<close>

theorem protocol_violation:
  assumes "fleet w = Inr chutes"
    and "get_vllm_chute chutes (chute_pick w) = Some chute"
    and "\<And>url payload. post w url payload = Inr resp"
    and "status resp = 200"
    and "map_of (headers resp) ''X-Chutes-InvocationID'' = Some p"
    and "content resp = pre @ Chunk b # rest"
    and "consume loads p (the_chute_id chute) [] pre = Inr syn"
    and "take 6 b = ''data: ''"
    and "loads (drop 6 b) = Some data"
    and "extract_target data = Inr None"
    and "extract_target_error data = Inr (Some t)"
    and "syn = [] \<or> target_instance_id t \<noteq> instance_id (last syn)
           \<or> target_invocation_id t \<noteq> invocation_id (last syn)"
  shows "ingest p (the_chute_id chute) syn (RoutingErrorEvent t)
           \<in> {Inl IndexError, Inl AssertionError}
       \<and> perform_request_try loads (post w) chute payload url
           \<in> {Inl IndexError, Inl AssertionError}
       \<and> perform_request loads (post w) chute payload url = None
       \<and> snd (perform_synthetic loads tp w st) = st"
proof -
  let ?c = "the_chute_id chute"
  let ?E = "{Inl IndexError, Inl AssertionError} :: (py_error + Synthetic list) set"
  have ing: "ingest p ?c syn (RoutingErrorEvent t) \<in> ?E"
    using assms(12) by auto
  have "process_chunk loads p ?c syn b = ingest p ?c syn (RoutingErrorEvent t)"
    using process_chunk_data [where loads = loads, OF assms(8,9)]
    by (simp add: handle_data_def assms(10,11))
  then have "consume loads p ?c [] (content resp) = ingest p ?c syn (RoutingErrorEvent t)"
    using ing by (auto simp: assms(6,7) consume_append)
  then have con: "consume loads p ?c [] (content resp) = Inl IndexError
                 \<or> consume loads p ?c [] (content resp) = Inl AssertionError"
    using ing by auto
  then have raised: "perform_request_try loads (post w) chute payload url
           \<in> {Inl IndexError, Inl AssertionError}"
    by (auto simp: perform_request_try_def assms(3,4,5))
  then have none: "perform_request loads (post w) chute payload url = None"
    by (auto simp: perform_request_def)
  have none': "perform_request loads (post w) chute payload' url' = None" for payload' url'
    using con by (auto simp: perform_request_def perform_request_try_def assms(3,4,5))
  have "perform_chat loads tp w chutes = Inr None \<or> (\<exists>e. perform_chat loads tp w chutes = Inl e)"
    unfolding perform_chat_def
    by (simp add: assms(2) none' split: sum.splits)
  then have "snd (perform_synthetic loads tp w st) = st"
    by (auto simp: perform_synthetic_def assms(1))
  then show ?thesis using ing raised none by simp
qed

text \<open>
  The statement at the body of two routing events followed by the error event of the
  first: the error event does not belong to the last row.
\<close>

theorem protocol_violation_witness:
  "ingest ''p1'' ''c1'' [ex_row ''ia'' ''va'' False, ex_row ''ib'' ''vb'' False]
      (RoutingErrorEvent \<lparr>target_instance_id = ''ia'', target_invocation_id = ''va'',
          uid = ''7'', hotkey = ''5Fhk'', error = Some ''timeout''\<rparr>)
     = Inl AssertionError
   \<and> perform_request_try ex_loads
        (post (ex_world (ex_response 200
           [Chunk ''data: A'', Chunk ''data: B'', Chunk ''data: errA'']) True))
        ex_chute ex_payload ex_url = Inl AssertionError
   \<and> perform_request ex_loads
        (post (ex_world (ex_response 200
           [Chunk ''data: A'', Chunk ''data: B'', Chunk ''data: errA'']) True))
        ex_chute ex_payload ex_url = None
   \<and> snd (perform_synthetic ex_loads ex_prompts
        (ex_world (ex_response 200
           [Chunk ''data: A'', Chunk ''data: B'', Chunk ''data: errA'']) True) ex_store)
     = ex_store"
proof -
  let ?resp = "ex_response 200 [Chunk ''data: A'', Chunk ''data: B'', Chunk ''data: errA'']"
  let ?w = "ex_world ?resp True"
  let ?t = "\<lparr>target_instance_id = ''ia'', target_invocation_id = ''va'',
          uid = ''7'', hotkey = ''5Fhk'', error = Some ''timeout''\<rparr>"
  have h1: "fleet ?w = Inr [ex_chute]"
    by (simp add: ex_world_def)
  have h2: "get_vllm_chute [ex_chute] (chute_pick ?w) = Some ex_chute"
    by code_simp
  have h3: "post ?w url payload = Inr ?resp" for url payload
    by (simp add: ex_world_def)
  have h4: "status ?resp = 200"
    by (simp add: ex_response_def)
  have h5: "map_of (headers ?resp) ''X-Chutes-InvocationID'' = Some ''p1''"
    by (simp add: ex_response_def)
  have h6: "content ?resp = [Chunk ''data: A'', Chunk ''data: B''] @ Chunk ''data: errA'' # []"
    by (simp add: ex_response_def)
  have h7: "consume ex_loads ''p1'' (the_chute_id ex_chute) [] [Chunk ''data: A'', Chunk ''data: B'']
              = Inr [ex_row ''ia'' ''va'' False, ex_row ''ib'' ''vb'' False]"
    by code_simp
  have h8: "take 6 ''data: errA'' = ''data: ''"
    by simp
  have h9: "ex_loads (drop 6 ''data: errA'') = Some (ex_error ''ia'' ''va'')"
    by (simp add: ex_loads_def)
  have h10: "extract_target (ex_error ''ia'' ''va'') = Inr None"
    by code_simp
  have h11: "extract_target_error (ex_error ''ia'' ''va'') = Inr (Some ?t)"
    by code_simp
  have h12: "[ex_row ''ia'' ''va'' False, ex_row ''ib'' ''vb'' False] = []
     \<or> target_instance_id ?t
          \<noteq> instance_id (last [ex_row ''ia'' ''va'' False, ex_row ''ib'' ''vb'' False])
     \<or> target_invocation_id ?t
          \<noteq> invocation_id (last [ex_row ''ia'' ''va'' False, ex_row ''ib'' ''vb'' False])"
    by (simp add: ex_row_def)
  have c: "the_chute_id ex_chute = ''c1''"
    by (simp add: ex_chute_def)
  have i: "ingest ''p1'' ''c1'' [ex_row ''ia'' ''va'' False, ex_row ''ib'' ''vb'' False]
      (RoutingErrorEvent ?t) = Inl AssertionError"
    by (simp add: ex_row_def)
  have t: "perform_request_try ex_loads (post ?w) ex_chute ex_payload ex_url = Inl AssertionError"
    by code_simp
  show ?thesis
    using protocol_violation
      [where loads = ex_loads and w = ?w and tp = ex_prompts and st = ex_store
         and payload = ex_payload and url = ex_url,
       OF h1 h2 h3 h4 h5 h6 h7 h8 h9 h10 h11 h12]
      i t
    by (simp add: c)
qed

section \<open>The scheduler loop\<close>

text \<open>Cycles that returned: the loop goes on from the store they left.\<close>

lemma perform_synthetics_append:
  "perform_synthetics loads tp True ws st = (Running, st1) \<Longrightarrow>
   perform_synthetics loads tp True (ws @ ws') st = perform_synthetics loads tp True ws' st1"
proof (induction ws arbitrary: st)
  case Nil
  then show ?case by (cases ws') simp_all
next
  case (Cons w ws)
  obtain r st' where step: "perform_synthetic loads tp w st = (r, st')"
    by (cases "perform_synthetic loads tp w st") 
  show ?case
  proof (cases r)
    case (Inl e)
    then show ?thesis using Cons.prems step by simp
  next
    case (Inr u)
    then have "perform_synthetics loads tp True ws st' = (Running, st1)"
      using Cons.prems step by simp
    then show ?thesis using Cons.IH Inr step by simp
  qed
qed

text \<open>
  Claim C7, as the spec states it, fails: the loop of \<^verbatim>\<open>perform_synthetics\<close> has no
  handler. With a first cycle whose commit fails and a second cycle that would commit a
  row, the loop ends with the exception of the first cycle; the second cycle never runs
  (its row is not in the store), although on its own it commits the row.
\<close>

theorem persistence_failure_counterexample:
  "perform_synthetics ex_loads ex_prompts True
     [ex_world (ex_response 200 [Chunk ''data: A'']) False,
      ex_world (ex_response 200 [Chunk ''data: B'']) True] ex_store
     = (Raised DatabaseError, \<lparr>rows = [], sessions = 1\<rparr>)
   \<and> perform_synthetics ex_loads ex_prompts True
     [ex_world (ex_response 200 [Chunk ''data: B'']) True] ex_store
     = (Running, \<lparr>rows = [ex_row ''ib'' ''vb'' False], sessions = 1\<rparr>)"
  by code_simp

text \<open>
  Claim C7, amended. A persistence failure while committing a cycle's batch is rolled
  back (the rows of the store are as before, the batch is dropped) and raised again by
  \<^verbatim>\<open>get_session\<close>; the exception leaves \<^verbatim>\<open>perform_synthetic\<close> and ends the scheduler
  loop, after however many cycles that returned: no later cycle runs.
\<close>

theorem persistence_failure_ends_loop:
  assumes "perform_synthetics loads tp True ws st = (Running, st1)"
    and "fleet w = Inr chutes"
    and "perform_chat loads tp w chutes = Inr (Some syn)"
    and "syn \<noteq> []"
    and "\<not> commit_ok w"
  shows "perform_synthetic loads tp w st1 = (Inl DatabaseError, st1\<lparr>sessions := Suc (sessions st1)\<rparr>)
       \<and> perform_synthetics loads tp True (ws @ w # ws') st
           = (Raised DatabaseError, st1\<lparr>sessions := Suc (sessions st1)\<rparr>)"
proof -
  have one: "perform_synthetic loads tp w st1
               = (Inl DatabaseError, st1\<lparr>sessions := Suc (sessions st1)\<rparr>)"
    using assms(2-5) by (simp add: perform_synthetic_def)
  have "perform_synthetics loads tp True (ws @ w # ws') st
          = perform_synthetics loads tp True (w # ws') st1"
    using assms(1) by (rule perform_synthetics_append)
  then show ?thesis using one by simp
qed

text \<open>
  The amended statement at a loop of three cycles: the first commits a row, the commit of
  the second fails, the third is never run.
\<close>

theorem persistence_failure_ends_loop_witness:
  "perform_synthetic ex_loads ex_prompts
      (ex_world (ex_response 200 [Chunk ''data: B'']) False)
      \<lparr>rows = [ex_row ''ia'' ''va'' False], sessions = 1\<rparr>
     = (Inl DatabaseError, \<lparr>rows = [ex_row ''ia'' ''va'' False], sessions = 2\<rparr>)
   \<and> perform_synthetics ex_loads ex_prompts True
     ([ex_world (ex_response 200 [Chunk ''data: A'']) True]
       @ ex_world (ex_response 200 [Chunk ''data: B'']) False
       # [ex_world (ex_response 200 [Chunk ''data: A'']) True]) ex_store
     = (Raised DatabaseError, \<lparr>rows = [ex_row ''ia'' ''va'' False], sessions = 2\<rparr>)"
proof -
  let ?w = "ex_world (ex_response 200 [Chunk ''data: B'']) False"
  have h1: "perform_synthetics ex_loads ex_prompts True
     [ex_world (ex_response 200 [Chunk ''data: A'']) True] ex_store
     = (Running, \<lparr>rows = [ex_row ''ia'' ''va'' False], sessions = 1\<rparr>)"
    by code_simp
  have h2: "fleet ?w = Inr [ex_chute]"
    by (simp add: ex_world_def)
  have h3: "perform_chat ex_loads ex_prompts ?w [ex_chute] = Inr (Some [ex_row ''ib'' ''vb'' False])"
    by code_simp
  have h4: "[ex_row ''ib'' ''vb'' False] \<noteq> []"
    by simp
  have h5: "\<not> commit_ok ?w"
    by (simp add: ex_world_def)
  show ?thesis
    using persistence_failure_ends_loop
      [where loads = ex_loads and ws' = "[ex_world (ex_response 200 [Chunk ''data: A'']) True]",
       OF h1 h2 h3 h4 h5]
    by simp
qed

section \<open>No eligible target\<close>

text \<open>
  Claim C8. When no chute of the snapshot has an instance that is both active and
  verified, \<^verbatim>\<open>_get_vllm_chute\<close> returns \<^verbatim>\<open>None\<close>, so does \<^verbatim>\<open>_perform_chat\<close> (no request is
  sent), and \<^verbatim>\<open>perform_synthetic\<close> returns without an exception and leaves the store as it
  was: no session is opened, so the persistence boundary is not invoked.
\<close>

theorem no_eligible_target:
  assumes "fleet w = Inr chutes"
    and "\<forall>c\<in>set chutes. \<forall>i\<in>set (instances c). \<not> (active i \<and> verified i)"
  shows "get_vllm_chute chutes (chute_pick w) = None
       \<and> perform_chat loads tp w chutes = Inr None
       \<and> perform_synthetic loads tp w st = (Inr (), st)"
proof -
  have "vllm_chutes chutes = []"
    using assms(2) by (auto simp: vllm_chutes_def filter_empty_conv list_ex_iff)
  then have none: "get_vllm_chute chutes (chute_pick w) = None"
    by (simp add: get_vllm_chute_def)
  then have chat: "perform_chat loads tp w chutes = Inr None"
    by (simp add: perform_chat_def)
  then have "perform_synthetic loads tp w st = (Inr (), st)"
    by (simp add: perform_synthetic_def assms(1))
  then show ?thesis using none chat by simp
qed

text \<open>The statement at a fleet of one chute whose instances are active or verified, never both.\<close>

theorem no_eligible_target_witness:
  "get_vllm_chute [ex_cold_chute]
      (chute_pick ((ex_world (ex_response 200 [Chunk ''data: A'']) True)
         \<lparr>fleet := Inr [ex_cold_chute]\<rparr>)) = None
   \<and> perform_chat ex_loads ex_prompts
      ((ex_world (ex_response 200 [Chunk ''data: A'']) True)
         \<lparr>fleet := Inr [ex_cold_chute]\<rparr>) [ex_cold_chute] = Inr None
   \<and> perform_synthetic ex_loads ex_prompts
      ((ex_world (ex_response 200 [Chunk ''data: A'']) True)
         \<lparr>fleet := Inr [ex_cold_chute]\<rparr>) ex_store = (Inr (), ex_store)"
proof -
  let ?w = "(ex_world (ex_response 200 [Chunk ''data: A'']) True)\<lparr>fleet := Inr [ex_cold_chute]\<rparr>"
  have h1: "fleet ?w = Inr [ex_cold_chute]"
    by simp
  have h2: "\<forall>c\<in>set [ex_cold_chute]. \<forall>i\<in>set (instances c). \<not> (active i \<and> verified i)"
    by (simp add: ex_cold_chute_def)
  show ?thesis
    by (rule no_eligible_target [OF h1 h2])
qed

section \<open>The parent invocation identifier\<close>

text \<open>
  Every step of the loop keeps the property that all rows carry the parent identifier
  the loop was started with: a routing event appends a row with it, an error event only
  writes \<^verbatim>\<open>has_error\<close>.
\<close>

lemma ingest_parent:
  assumes "ingest p c syn ev = Inr syn'"
    and "\<forall>r\<in>set syn. parent_invocation_id r = p"
  shows "\<forall>r\<in>set syn'. parent_invocation_id r = p"
proof (cases ev)
  case (RoutingEvent t)
  then show ?thesis using assms by auto
next
  case (RoutingErrorEvent t)
  then have ne: "syn \<noteq> []"
    and eq: "syn' = butlast syn @ [(last syn)\<lparr>has_error := True\<rparr>]"
    using assms(1) by (auto split: if_splits)
  have "parent_invocation_id (last syn) = p"
    using ne assms(2) by simp
  moreover have "\<forall>r\<in>set (butlast syn). parent_invocation_id r = p"
    using assms(2) by (auto dest: in_set_butlastD)
  ultimately show ?thesis using eq by auto
qed

lemma handle_data_parent:
  assumes "handle_data p c syn data = Inr syn'"
    and "\<forall>r\<in>set syn. parent_invocation_id r = p"
  shows "\<forall>r\<in>set syn'. parent_invocation_id r = p"
proof (cases "extract_target data")
  case (Inl e)
  then show ?thesis using assms(1) by (simp add: handle_data_def)
next
  case (Inr found)
  show ?thesis
  proof (cases found)
    case (Some t)
    then have "ingest p c syn (RoutingEvent t) = Inr syn'"
      using assms(1) Inr by (cases "debug_target data") (simp_all add: handle_data_def)
    then show ?thesis using assms(2) by (rule ingest_parent)
  next
    case None
    note no_target = this
    show ?thesis
    proof (cases "extract_target_error data")
      case (Inl e)
      then show ?thesis using assms(1) Inr no_target by (simp add: handle_data_def)
    next
      case (Inr failed)
      show ?thesis
      proof (cases failed)
        case (Some t)
        then have "ingest p c syn (RoutingErrorEvent t) = Inr syn'"
          using assms(1) \<open>extract_target data = Inr found\<close> no_target Inr
          by (simp add: handle_data_def)
        then show ?thesis using assms(2) by (rule ingest_parent)
      next
        case None
        then have "syn' = syn"
          using assms(1) \<open>extract_target data = Inr found\<close> no_target Inr
          by (simp add: handle_data_def split: sum.splits if_splits json.splits)
        then show ?thesis using assms(2) by simp
      qed
    qed
  qed
qed

lemma process_chunk_parent:
  assumes "process_chunk loads p c syn b = Inr syn'"
    and "\<forall>r\<in>set syn. parent_invocation_id r = p"
  shows "\<forall>r\<in>set syn'. parent_invocation_id r = p"
proof -
  have "syn' = syn \<or> (\<exists>data. handle_data p c syn data = Inr syn')"
    using assms(1) unfolding process_chunk_def
    by (auto split: option.splits if_splits)
  then show ?thesis using assms(2) handle_data_parent by blast
qed

lemma consume_parent:
  assumes "consume loads p c syn body = Inr syn'"
    and "\<forall>r\<in>set syn. parent_invocation_id r = p"
  shows "\<forall>r\<in>set syn'. parent_invocation_id r = p"
  using assms
proof (induction body arbitrary: syn)
  case Nil
  then show ?case by simp
next
  case (Cons x xs)
  show ?case
  proof (cases x)
    case ReadError
    then show ?thesis using Cons.prems by simp
  next
    case (Chunk b)
    then obtain syn1 where s1: "process_chunk loads p c syn b = Inr syn1"
      and s2: "consume loads p c syn1 xs = Inr syn'"
      using Cons.prems(1) by (auto split: sum.splits)
    have "\<forall>r\<in>set syn1. parent_invocation_id r = p"
      using s1 Cons.prems(2) by (rule process_chunk_parent)
    then show ?thesis using Cons.IH s2 by blast
  qed
qed

text \<open>
  Claim C9. All rows \<^verbatim>\<open>_perform_request\<close> returns carry the same
  \<^verbatim>\<open>parent_invocation_id\<close>: the value of the response header \<^verbatim>\<open>X-Chutes-InvocationID\<close>,
  which the model reads once, before the loop over the body starts. The identifier
  does not depend on a previous cycle: the rows a cycle adds to the store are a batch
  fixed by the cycle's own world, whatever the store held before.
\<close>

theorem parent_invocation_id_constant:
  "(perform_request loads http_post chute payload url = Some syn \<longrightarrow>
      (\<exists>resp p. http_post url payload = Inr resp
         \<and> map_of (headers resp) ''X-Chutes-InvocationID'' = Some p
         \<and> (\<forall>r\<in>set syn. parent_invocation_id r = p)))
   \<and> (\<exists>batch. \<forall>st. rows (snd (perform_synthetic loads tp w st)) = rows st @ batch)"
proof (intro conjI impI)
  assume some: "perform_request loads http_post chute payload url = Some syn"
  then obtain resp p where r: "http_post url payload = Inr resp"
    and h: "map_of (headers resp) ''X-Chutes-InvocationID'' = Some p"
    and c: "consume loads p (the_chute_id chute) [] (content resp) = Inr syn"
    unfolding perform_request_def perform_request_try_def
    by (auto split: sum.splits option.splits if_splits)
  have "\<forall>r\<in>set syn. parent_invocation_id r = p"
    using c by (rule consume_parent) simp
  then show "\<exists>resp p. http_post url payload = Inr resp
         \<and> map_of (headers resp) ''X-Chutes-InvocationID'' = Some p
         \<and> (\<forall>r\<in>set syn. parent_invocation_id r = p)"
    using r h by blast
next
  define batch where "batch =
     (case fleet w of
        Inl e \<Rightarrow> []
      | Inr chutes \<Rightarrow>
          (case perform_chat loads tp w chutes of
             Inr (Some syn) \<Rightarrow> if commit_ok w then syn else []
           | _ \<Rightarrow> []))"
  have "rows (snd (perform_synthetic loads tp w st)) = rows st @ batch" for st
    unfolding batch_def perform_synthetic_def
    by (simp split: sum.splits option.splits)
  then show "\<exists>batch. \<forall>st. rows (snd (perform_synthetic loads tp w st)) = rows st @ batch"
    by blast
qed

text \<open>
  The statement at a body of a routing event, its error event and a second routing
  event: both rows carry the header's value \<open>p1\<close>.
\<close>

theorem parent_invocation_id_constant_witness:
  "perform_request ex_loads
      (\<lambda>url payload. Inr (ex_response 200
          [Chunk ''data: A'', Chunk ''data: errA'', Chunk ''data: B'']))
      ex_chute ex_payload ex_url
     = Some [ex_row ''ia'' ''va'' True, ex_row ''ib'' ''vb'' False]
   \<and> (\<exists>resp p. Inr (ex_response 200
          [Chunk ''data: A'', Chunk ''data: errA'', Chunk ''data: B'']) = (Inr resp :: py_error + response)
         \<and> map_of (headers resp) ''X-Chutes-InvocationID'' = Some p
         \<and> list_all (\<lambda>r. parent_invocation_id r = p)
              [ex_row ''ia'' ''va'' True, ex_row ''ib'' ''vb'' False])
   \<and> map parent_invocation_id [ex_row ''ia'' ''va'' True, ex_row ''ib'' ''vb'' False]
     = [''p1'', ''p1'']"
proof -
  have h: "perform_request ex_loads
      (\<lambda>url payload. Inr (ex_response 200
          [Chunk ''data: A'', Chunk ''data: errA'', Chunk ''data: B'']))
      ex_chute ex_payload ex_url
     = Some [ex_row ''ia'' ''va'' True, ex_row ''ib'' ''vb'' False]"
    by code_simp
  have m: "map parent_invocation_id [ex_row ''ia'' ''va'' True, ex_row ''ib'' ''vb'' False]
     = [''p1'', ''p1'']"
    by (simp add: ex_row_def)
  show ?thesis
    using parent_invocation_id_constant
      [where loads = ex_loads and chute = ex_chute and payload = ex_payload and url = ex_url
         and http_post = "\<lambda>url payload. Inr (ex_response 200
          [Chunk ''data: A'', Chunk ''data: errA'', Chunk ''data: B''])"
         and syn = "[ex_row ''ia'' ''va'' True, ex_row ''ib'' ''vb'' False]"]
      h m
    by (simp add: list_all_iff)
qed

section \<open>Rejected requests\<close>

text \<open>
  Claim C4 at a response with status 500. \<^verbatim>\<open>_perform_request\<close> logs the warning and
  returns \<^verbatim>\<open>None\<close>; \<^verbatim>\<open>_perform_chat\<close> then formats \<^verbatim>\<open>len(synthetics)\<close> into its log
  message, which raises \<open>TypeError\<close>, and the exception leaves \<^verbatim>\<open>perform_synthetic\<close>. The
  store is unchanged.
\<close>

theorem request_rejected_raises:
  "perform_request ex_loads (post (ex_world (ex_response 500 []) True))
      ex_chute ex_payload ex_url = None
   \<and> perform_chat ex_loads ex_prompts (ex_world (ex_response 500 []) True) [ex_chute]
      = Inl TypeError
   \<and> perform_synthetic ex_loads ex_prompts (ex_world (ex_response 500 []) True) ex_store
      = (Inl TypeError, ex_store)"
  by code_simp

section \<open>The correlation of routing events\<close>

text \<open>
  A payload on which \<^verbatim>\<open>_extract_target\<close> returns a target is an object whose trace is an
  object with a string message. On such a payload \<^verbatim>\<open>_debug_target\<close> returns (instead of
  raising) exactly when the trace object holds a string \<^verbatim>\<open>timestamp\<close>.
\<close>

lemma extract_target_shape:
  assumes "extract_target d = Inr (Some t)"
  shows "\<exists>kvs tr m. d = JObj kvs \<and> map_of kvs ''trace'' = Some (JObj tr)
           \<and> map_of tr ''message'' = Some (JStr m)"
proof -
  obtain kvs where d: "d = JObj kvs"
    using assms by (cases d) (simp_all add: extract_target_def)
  define tv where "tv = (case map_of kvs ''trace'' of None \<Rightarrow> JNull | Some v \<Rightarrow> v)"
  have t: "truthy tv"
    using assms unfolding d extract_target_def tv_def by (simp split: if_splits)
  then obtain tr where tr: "tv = JObj tr"
    using assms unfolding d extract_target_def tv_def
    by (cases "case map_of kvs ''trace'' of None \<Rightarrow> JNull | Some v \<Rightarrow> v") simp_all
  then have k: "map_of kvs ''trace'' = Some (JObj tr)"
    unfolding tv_def by (simp split: option.splits)
  define mv where "mv = (case map_of tr ''message'' of None \<Rightarrow> JNull | Some v \<Rightarrow> v)"
  have ne: "tr \<noteq> []"
    using t tr by simp
  have "\<exists>m. mv = JStr m"
    using assms ne unfolding d extract_target_def mv_def
    by (cases "case map_of tr ''message'' of None \<Rightarrow> JNull | Some v \<Rightarrow> v")
       (simp_all add: k)
  then obtain m where "map_of tr ''message'' = Some (JStr m)"
    unfolding mv_def by (auto split: option.splits)
  then show ?thesis using d k by blast
qed

lemma debug_target_routing:
  assumes "extract_target d = Inr (Some t)"
  shows "debug_target d = Inr () \<longleftrightarrow>
           (\<exists>kvs tr ts. d = JObj kvs \<and> map_of kvs ''trace'' = Some (JObj tr)
              \<and> map_of tr ''timestamp'' = Some (JStr ts))"
proof -
  obtain kvs tr m where d: "d = JObj kvs" and k: "map_of kvs ''trace'' = Some (JObj tr)"
    and m: "map_of tr ''message'' = Some (JStr m)"
    using extract_target_shape [OF assms] by blast
  show ?thesis
    unfolding d debug_target_def
    by (auto simp: k m split: option.splits json.splits)
qed

text \<open>
  One line of the body that holds a routing event, or an error event, and a request whose
  loop returned.
\<close>

lemma process_chunk_routing:
  assumes "take 6 l = ''data: ''" and "loads (drop 6 l) = Some d"
    and "extract_target d = Inr (Some t)" and "debug_target d = Inr ()"
  shows "process_chunk loads p c syn l =
           Inr (syn @ [\<lparr>instance_id = target_instance_id t, parent_invocation_id = p,
                        invocation_id = target_invocation_id t, chute_id = c,
                        miner_uid = uid t, miner_hotkey = hotkey t, has_error = False\<rparr>])"
  using process_chunk_data [where loads = loads, OF assms(1,2)]
  by (simp add: handle_data_def assms(3,4))

lemma process_chunk_routing_error:
  assumes "take 6 l = ''data: ''" and "loads (drop 6 l) = Some d"
    and "extract_target d = Inr None" and "extract_target_error d = Inr (Some t)"
  shows "process_chunk loads p c syn l = ingest p c syn (RoutingErrorEvent t)"
  using process_chunk_data [where loads = loads, OF assms(1,2)]
  by (simp add: handle_data_def assms(3,4))

lemma perform_request_ok:
  assumes "http_post url payload = Inr resp" and "status resp = 200"
    and "map_of (headers resp) ''X-Chutes-InvocationID'' = Some p"
    and "consume loads p (the_chute_id chute) [] (content resp) = Inr syn"
  shows "perform_request loads http_post chute payload url = Some syn"
  using assms by (simp add: perform_request_def perform_request_try_def)

text \<open>
  Claim C1, as the spec states it, fails: between the classification (line 241) and the
  append (line 243) the loop calls \<^verbatim>\<open>_debug_target\<close> (line 242). On a routing trace
  without \<^verbatim>\<open>timestamp\<close>, \<^verbatim>\<open>_extract_target\<close> returns the target, the loop body raises
  \<open>KeyError\<close> and appends nothing, and \<^verbatim>\<open>_perform_request\<close> returns \<^verbatim>\<open>None\<close>.
\<close>

theorem routing_event_without_timestamp_counterexample:
  "extract_target ex_no_timestamp =
     Inr (Some \<lparr>target_instance_id = ''ia'', target_invocation_id = ''va'',
                 uid = ''7'', hotkey = ''5Fhk'', error = None\<rparr>)
   \<and> handle_data ''p1'' ''c1'' [] ex_no_timestamp = Inl KeyError
   \<and> perform_request ex_loads
        (\<lambda>url payload. Inr (ex_response 200 [Chunk ''data: notime'']))
        ex_chute ex_payload ex_url = None"
  by code_simp

text \<open>
  Claim C1, amended, on the loop of \<^verbatim>\<open>_perform_request\<close>. Let \<open>la\<close> and \<open>lb\<close> be lines
  holding routing events (\<^verbatim>\<open>_extract_target\<close> returns the targets \<open>ta\<close> and \<open>tb\<close>) on which
  \<^verbatim>\<open>_debug_target\<close> returns, that is, whose trace holds a string timestamp, and \<open>le\<close> a
  line holding an error event for the target \<open>te\<close>. Whatever rows \<open>syn\<close> the loop holds
  and whatever lines \<open>rest\<close> follow:
  \<^item> on \<open>la\<close> the loop appends a row for \<open>ta\<close> with \<^verbatim>\<open>has_error = False\<close> and goes on;
  \<^item> on \<open>le\<close>, when instance and invocation of \<open>te\<close> are those of the last row, the loop
    sets \<^verbatim>\<open>has_error\<close> of exactly that row (the rows before it, \<open>butlast\<close>, and the other
    columns of the last row are kept) and goes on;
  \<^item> a response whose body is \<open>la\<close> followed by the error event of \<open>ta\<close> makes
    \<^verbatim>\<open>_perform_request\<close> return exactly one row, with \<^verbatim>\<open>has_error = True\<close>;
  \<^item> a response whose body is \<open>la\<close>, \<open>lb\<close> and the error event of \<open>tb\<close> makes it return
    the two rows in arrival order, only the row of \<open>tb\<close> with \<^verbatim>\<open>has_error = True\<close>.
\<close>

theorem routing_events_correlate:
  assumes "take 6 la = ''data: ''" and "loads (drop 6 la) = Some a"
    and "extract_target a = Inr (Some ta)" and "debug_target a = Inr ()"
    and "take 6 lb = ''data: ''" and "loads (drop 6 lb) = Some b"
    and "extract_target b = Inr (Some tb)" and "debug_target b = Inr ()"
    and "take 6 le = ''data: ''" and "loads (drop 6 le) = Some e"
    and "extract_target e = Inr None" and "extract_target_error e = Inr (Some te)"
    and "http_post url payload = Inr resp" and "status resp = 200"
    and "map_of (headers resp) ''X-Chutes-InvocationID'' = Some p"
  shows
   "consume loads p c syn (Chunk la # rest) =
      consume loads p c
        (syn @ [\<lparr>instance_id = target_instance_id ta, parent_invocation_id = p,
                  invocation_id = target_invocation_id ta, chute_id = c,
                  miner_uid = uid ta, miner_hotkey = hotkey ta, has_error = False\<rparr>]) rest
    \<and> (syn \<noteq> [] \<and> target_instance_id te = instance_id (last syn)
          \<and> target_invocation_id te = invocation_id (last syn)
        \<longrightarrow> consume loads p c syn (Chunk le # rest) =
              consume loads p c (butlast syn @ [(last syn)\<lparr>has_error := True\<rparr>]) rest)
    \<and> (content resp = [Chunk la, Chunk le]
          \<and> target_instance_id te = target_instance_id ta
          \<and> target_invocation_id te = target_invocation_id ta
        \<longrightarrow> perform_request loads http_post chute payload url =
              Some [\<lparr>instance_id = target_instance_id ta, parent_invocation_id = p,
                     invocation_id = target_invocation_id ta, chute_id = the_chute_id chute,
                     miner_uid = uid ta, miner_hotkey = hotkey ta, has_error = True\<rparr>])
    \<and> (content resp = [Chunk la, Chunk lb, Chunk le]
          \<and> target_instance_id te = target_instance_id tb
          \<and> target_invocation_id te = target_invocation_id tb
        \<longrightarrow> perform_request loads http_post chute payload url =
              Some [\<lparr>instance_id = target_instance_id ta, parent_invocation_id = p,
                     invocation_id = target_invocation_id ta, chute_id = the_chute_id chute,
                     miner_uid = uid ta, miner_hotkey = hotkey ta, has_error = False\<rparr>,
                    \<lparr>instance_id = target_instance_id tb, parent_invocation_id = p,
                     invocation_id = target_invocation_id tb, chute_id = the_chute_id chute,
                     miner_uid = uid tb, miner_hotkey = hotkey tb, has_error = True\<rparr>])"
proof (intro conjI impI)
  note pa = process_chunk_routing [where loads = loads, OF assms(1-4)]
  note pb = process_chunk_routing [where loads = loads, OF assms(5-8)]
  note pe = process_chunk_routing_error [where loads = loads, OF assms(9-12)]
  show "consume loads p c syn (Chunk la # rest) =
      consume loads p c
        (syn @ [\<lparr>instance_id = target_instance_id ta, parent_invocation_id = p,
                  invocation_id = target_invocation_id ta, chute_id = c,
                  miner_uid = uid ta, miner_hotkey = hotkey ta, has_error = False\<rparr>]) rest"
    by (simp add: pa)
  {
    assume "syn \<noteq> [] \<and> target_instance_id te = instance_id (last syn)
          \<and> target_invocation_id te = invocation_id (last syn)"
    then show "consume loads p c syn (Chunk le # rest) =
              consume loads p c (butlast syn @ [(last syn)\<lparr>has_error := True\<rparr>]) rest"
      by (simp add: pe)
  }
  {
    assume h: "content resp = [Chunk la, Chunk le]
          \<and> target_instance_id te = target_instance_id ta
          \<and> target_invocation_id te = target_invocation_id ta"
    have "consume loads p (the_chute_id chute) [] (content resp) =
            Inr [\<lparr>instance_id = target_instance_id ta, parent_invocation_id = p,
                   invocation_id = target_invocation_id ta, chute_id = the_chute_id chute,
                   miner_uid = uid ta, miner_hotkey = hotkey ta, has_error = True\<rparr>]"
      using h by (simp add: pa pe)
    then show "perform_request loads http_post chute payload url =
              Some [\<lparr>instance_id = target_instance_id ta, parent_invocation_id = p,
                     invocation_id = target_invocation_id ta, chute_id = the_chute_id chute,
                     miner_uid = uid ta, miner_hotkey = hotkey ta, has_error = True\<rparr>]"
      by (rule perform_request_ok [where http_post = http_post, OF assms(13-15)])
  }
  {
    assume h: "content resp = [Chunk la, Chunk lb, Chunk le]
          \<and> target_instance_id te = target_instance_id tb
          \<and> target_invocation_id te = target_invocation_id tb"
    have "consume loads p (the_chute_id chute) [] (content resp) =
            Inr [\<lparr>instance_id = target_instance_id ta, parent_invocation_id = p,
                     invocation_id = target_invocation_id ta, chute_id = the_chute_id chute,
                     miner_uid = uid ta, miner_hotkey = hotkey ta, has_error = False\<rparr>,
                    \<lparr>instance_id = target_instance_id tb, parent_invocation_id = p,
                     invocation_id = target_invocation_id tb, chute_id = the_chute_id chute,
                     miner_uid = uid tb, miner_hotkey = hotkey tb, has_error = True\<rparr>]"
      using h by (simp add: pa pb pe)
    then show "perform_request loads http_post chute payload url =
              Some [\<lparr>instance_id = target_instance_id ta, parent_invocation_id = p,
                     invocation_id = target_invocation_id ta, chute_id = the_chute_id chute,
                     miner_uid = uid ta, miner_hotkey = hotkey ta, has_error = False\<rparr>,
                    \<lparr>instance_id = target_instance_id tb, parent_invocation_id = p,
                     invocation_id = target_invocation_id tb, chute_id = the_chute_id chute,
                     miner_uid = uid tb, miner_hotkey = hotkey tb, has_error = True\<rparr>]"
      by (rule perform_request_ok [where http_post = http_post, OF assms(13-15)])
  }
qed

text \<open>
  The amended statement at the example lines: a routing event into the empty list, its
  error event on the list holding its row, and the two bodies of the claim.
\<close>

theorem routing_events_correlate_witness:
  "consume ex_loads ''p1'' ''c1'' [] [Chunk ''data: A''] = Inr [ex_row ''ia'' ''va'' False]
   \<and> consume ex_loads ''p1'' ''c1'' [ex_row ''ia'' ''va'' False] [Chunk ''data: errA'']
       = Inr [ex_row ''ia'' ''va'' True]
   \<and> perform_request ex_loads
        (\<lambda>url payload. Inr (ex_response 200 [Chunk ''data: A'', Chunk ''data: errA'']))
        ex_chute ex_payload ex_url
       = Some [ex_row ''ia'' ''va'' True]
   \<and> perform_request ex_loads
        (\<lambda>url payload. Inr (ex_response 200
           [Chunk ''data: A'', Chunk ''data: B'', Chunk ''data: errB'']))
        ex_chute ex_payload ex_url
       = Some [ex_row ''ia'' ''va'' False, ex_row ''ib'' ''vb'' True]"
proof -
  let ?ta = "\<lparr>target_instance_id = ''ia'', target_invocation_id = ''va'',
              uid = ''7'', hotkey = ''5Fhk'', error = None\<rparr>"
  let ?tb = "\<lparr>target_instance_id = ''ib'', target_invocation_id = ''vb'',
              uid = ''7'', hotkey = ''5Fhk'', error = None\<rparr>"
  let ?tea = "\<lparr>target_instance_id = ''ia'', target_invocation_id = ''va'',
              uid = ''7'', hotkey = ''5Fhk'', error = Some ''timeout''\<rparr>"
  let ?teb = "\<lparr>target_instance_id = ''ib'', target_invocation_id = ''vb'',
              uid = ''7'', hotkey = ''5Fhk'', error = Some ''timeout''\<rparr>"
  let ?r1 = "ex_response 200 [Chunk ''data: A'', Chunk ''data: errA'']"
  let ?r2 = "ex_response 200 [Chunk ''data: A'', Chunk ''data: B'', Chunk ''data: errB'']"
  have a1: "take 6 ''data: A'' = ''data: ''" by simp
  have a2: "ex_loads (drop 6 ''data: A'') = Some (ex_routing ''ia'' ''va'')"
    by (simp add: ex_loads_def)
  have a3: "extract_target (ex_routing ''ia'' ''va'') = Inr (Some ?ta)" by code_simp
  have a4: "debug_target (ex_routing ''ia'' ''va'') = Inr ()"
    by (simp add: ex_routing_def debug_target_def)
  have b1: "take 6 ''data: B'' = ''data: ''" by simp
  have b2: "ex_loads (drop 6 ''data: B'') = Some (ex_routing ''ib'' ''vb'')"
    by (simp add: ex_loads_def)
  have b3: "extract_target (ex_routing ''ib'' ''vb'') = Inr (Some ?tb)" by code_simp
  have b4: "debug_target (ex_routing ''ib'' ''vb'') = Inr ()"
    by (simp add: ex_routing_def debug_target_def)
  have e1: "take 6 ''data: errA'' = ''data: ''" by simp
  have e2: "ex_loads (drop 6 ''data: errA'') = Some (ex_error ''ia'' ''va'')"
    by (simp add: ex_loads_def)
  have e3: "extract_target (ex_error ''ia'' ''va'') = Inr None" by code_simp
  have e4: "extract_target_error (ex_error ''ia'' ''va'') = Inr (Some ?tea)" by code_simp
  have f1: "take 6 ''data: errB'' = ''data: ''" by simp
  have f2: "ex_loads (drop 6 ''data: errB'') = Some (ex_error ''ib'' ''vb'')"
    by (simp add: ex_loads_def)
  have f3: "extract_target (ex_error ''ib'' ''vb'') = Inr None" by code_simp
  have f4: "extract_target_error (ex_error ''ib'' ''vb'') = Inr (Some ?teb)" by code_simp
  have r1: "(\<lambda>url payload. Inr ?r1) ex_url ex_payload = (Inr ?r1 :: py_error + response)"
    by simp
  have r2: "(\<lambda>url payload. Inr ?r2) ex_url ex_payload = (Inr ?r2 :: py_error + response)"
    by simp
  have s1: "status ?r1 = 200" and s2: "status ?r2 = 200"
    by (simp_all add: ex_response_def)
  have p1: "map_of (headers ?r1) ''X-Chutes-InvocationID'' = Some ''p1''"
    and p2: "map_of (headers ?r2) ''X-Chutes-InvocationID'' = Some ''p1''"
    by (simp_all add: ex_response_def)
  note first = routing_events_correlate
    [where loads = ex_loads and http_post = "\<lambda>url payload. Inr ?r1"
       and chute = ex_chute and c = "''c1''" and rest = "[]",
     OF a1 a2 a3 a4 b1 b2 b3 b4 e1 e2 e3 e4 r1 s1 p1]
  note second = routing_events_correlate
    [where loads = ex_loads and http_post = "\<lambda>url payload. Inr ?r2"
       and chute = ex_chute and c = "''c1''" and rest = "[]" and syn = "[]",
     OF a1 a2 a3 a4 b1 b2 b3 b4 f1 f2 f3 f4 r2 s2 p2]
  show ?thesis
    using first [where syn = "[]"] first [where syn = "[ex_row ''ia'' ''va'' False]"] second
    by (simp add: ex_row_def ex_response_def ex_chute_def)
qed

end
